theory Spec2Isabelle
  imports Main "HOL-Library.Multiset"
begin

section \<open>Python values used by the version model\<close>

text \<open>
  Exceptions of the Python code are values: every \<^verbatim>\<open>raise\<close> of the modelled
  functions is a branch returning \<open>Inl\<close> of one of these. \<open>BackendError\<close> stands for
  whatever a registry backend (an external collaborator) raises.
\<close>

datatype error =
    ValueError
  | UnknownOperator
  | AttributeError
  | IndexError
  | KeyError
  | BackendError string
  | CacheError string

text \<open>
  A Python rich comparison may return any object. \<^verbatim>\<open>Ver.__lt__\<close> returns
  either a \<^verbatim>\<open>bool\<close> or (after its loop) a \<^verbatim>\<open>str\<close>; \<open>truthy\<close> is
  what \<^verbatim>\<open>if\<close>, \<^verbatim>\<open>not\<close>, \<^verbatim>\<open>filter\<close> and
  \<^verbatim>\<open>list.sort\<close> make of such a value.
\<close>

datatype pyres = PBool bool | PStr string

fun truthy :: "pyres \<Rightarrow> bool" where
  "truthy (PBool b) = b"
| "truthy (PStr s) = (s \<noteq> [])"

text \<open>
  Strings are lists of 8-bit characters; Python compares \<^verbatim>\<open>str\<close> values
  lexicographically by code point.
\<close>

fun py_str_lt :: "string \<Rightarrow> string \<Rightarrow> bool" where
  "py_str_lt [] [] = False"
| "py_str_lt [] (y # ys) = True"
| "py_str_lt (x # xs) [] = False"
| "py_str_lt (x # xs) (y # ys) =
     ((of_char x :: nat) < of_char y \<or> (x = y \<and> py_str_lt xs ys))"

text \<open>\<^verbatim>\<open>str(n)\<close> and \<^verbatim>\<open>repr(n)\<close> of a Python \<^verbatim>\<open>int\<close>: decimal digits, with a leading minus sign.\<close>

fun str_nat :: "nat \<Rightarrow> string" where
  "str_nat n = (if n < 10 then [''0123456789'' ! n]
                else str_nat (n div 10) @ [''0123456789'' ! (n mod 10)])"

declare str_nat.simps [simp del]

definition str_int :: "int \<Rightarrow> string" where
  "str_int i = (if i < 0 then CHR ''-'' # str_nat (nat (- i)) else str_nat (nat i))"

text \<open>\<^verbatim>\<open>sep.join(parts)\<close>.\<close>

fun join :: "string \<Rightarrow> string list \<Rightarrow> string" where
  "join sep [] = []"
| "join sep [p] = p"
| "join sep (p # q # ps) = p @ sep @ join sep (q # ps)"


section \<open>Ver: mod versions (common.py)\<close>

text \<open>\<^verbatim>\<open>class VerType(int, PrettyEnum)\<close>: RELEASE = 3, BETA = 2, ALPHA = 1.\<close>

datatype VerType = ALPHA | BETA | RELEASE

fun VerType_value :: "VerType \<Rightarrow> int" where
  "VerType_value RELEASE = 3"
| "VerType_value BETA = 2"
| "VerType_value ALPHA = 1"

fun VerType_name :: "VerType \<Rightarrow> string" where
  "VerType_name RELEASE = ''RELEASE''"
| "VerType_name BETA = ''BETA''"
| "VerType_name ALPHA = ''ALPHA''"

text \<open>\<^verbatim>\<open>PrettyEnum.__repr__\<close>: \<^verbatim>\<open>f'{self.__class__.__qualname__}.{self.name}'\<close>.\<close>

definition VerType_repr :: "VerType \<Rightarrow> string" where
  "VerType_repr t = ''VerType.'' @ VerType_name t"

text \<open>A token of \<^verbatim>\<open>Ver.version: tuple[int|str]\<close>.\<close>

datatype tok = TInt int | TStr string

text \<open>
  \<^verbatim>\<open>@dataclass(frozen=True, ...) class Ver\<close> with fields
  \<^verbatim>\<open>version: tuple[int|str]\<close> and \<^verbatim>\<open>type: VerType = VerType.RELEASE\<close>.
\<close>

record Ver =
  version :: "tok list"
  type :: VerType

fun py_str :: "tok \<Rightarrow> string" where
  "py_str (TInt i) = str_int i"
| "py_str (TStr s) = s"

text \<open>
  \<^verbatim>\<open>repr\<close> of a token and of the token tuple. The \<^verbatim>\<open>repr\<close> of a
  \<^verbatim>\<open>str\<close> is given for strings that need no escaping (no quote, backslash or
  control character), which is what the tokenizers produce.
\<close>

fun py_repr :: "tok \<Rightarrow> string" where
  "py_repr (TInt i) = str_int i"
| "py_repr (TStr s) = [CHR 0x27] @ s @ [CHR 0x27]"

fun tuple_repr :: "tok list \<Rightarrow> string" where
  "tuple_repr [] = ''()''"
| "tuple_repr [t] = ''('' @ py_repr t @ '',)''"
| "tuple_repr ts = ''('' @ join '', '' (map py_repr ts) @ '')''"

text \<open>
  \<^verbatim>\<open>Ver.__repr__\<close>:
  \<^verbatim>\<open>
    if self.type is VerType.RELEASE: return f'Ver({self.version!r})'
    return f'Ver({self.version!r}, {self.type!r})'
  \<close>
\<close>

definition Ver_repr :: "Ver \<Rightarrow> string" where
  "Ver_repr v = (if type v = RELEASE then ''Ver('' @ tuple_repr (version v) @ '')''
                 else ''Ver('' @ tuple_repr (version v) @ '', '' @ VerType_repr (type v) @ '')'')"

text \<open>
  The loop of \<^verbatim>\<open>Ver.__lt__\<close> over \<^verbatim>\<open>zip_longest(self.version, other.version)\<close>:
  \<^verbatim>\<open>
    match lhs, rhs:
        case None, _: return False
        case _, None: return True
        case int(), int():
          if lhs < rhs: return True
          if lhs > rhs: return False
        case 'a'|'b', int(): return True
        case int(), 'a'|'b': return False
        case _: return str(lhs) < str(rhs)
  \<close>
  \<open>Some b\<close> is a \<^verbatim>\<open>return b\<close> from inside the loop, \<open>None\<close> is the loop
  running to its end (both tuples exhausted).
\<close>

fun lt_loop :: "tok list \<Rightarrow> tok list \<Rightarrow> bool option" where
  "lt_loop [] [] = None"
| "lt_loop [] (r # rs) = Some False"
| "lt_loop (l # ls) [] = Some True"
| "lt_loop (TInt a # ls) (TInt b # rs) =
     (if a < b then Some True else if a > b then Some False else lt_loop ls rs)"
| "lt_loop (TStr s # ls) (TInt b # rs) =
     (if s = ''a'' \<or> s = ''b'' then Some True
      else Some (py_str_lt (py_str (TStr s)) (py_str (TInt b))))"
| "lt_loop (TInt a # ls) (TStr s # rs) =
     (if s = ''a'' \<or> s = ''b'' then Some False
      else Some (py_str_lt (py_str (TInt a)) (py_str (TStr s))))"
| "lt_loop (TStr s # ls) (TStr t # rs) =
     Some (py_str_lt (py_str (TStr s)) (py_str (TStr t)))"

text \<open>
  \<^verbatim>\<open>Ver.__lt__\<close> (both operands are \<^verbatim>\<open>Ver\<close>, so the
  \<^verbatim>\<open>NotImplemented\<close> guard does not fire). After the loop the method goes on
  with two lines that are the body of \<^verbatim>\<open>__repr__\<close>:
  \<^verbatim>\<open>
    if self.type is VerType.RELEASE: return f'Ver({self.version!r})'
    return f'Ver({self.version!r}, {self.type!r})'
  \<close>
\<close>

definition Ver_lt :: "Ver \<Rightarrow> Ver \<Rightarrow> pyres" where
  "Ver_lt self other =
     (case lt_loop (version self) (version other) of
        Some b \<Rightarrow> PBool b
      | None \<Rightarrow> PStr (Ver_repr self))"

text \<open>The \<^verbatim>\<open>__eq__\<close> the dataclass generates compares the field tuples.\<close>

definition Ver_eq :: "Ver \<Rightarrow> Ver \<Rightarrow> bool" where
  "Ver_eq self other = (version self = version other \<and> type self = type other)"

text \<open>
  \<^verbatim>\<open>@total_ordering\<close> derives the other three comparisons from
  \<^verbatim>\<open>__lt__\<close> and \<^verbatim>\<open>__eq__\<close> (functools):
  \<^verbatim>\<open>__gt__\<close> is \<^verbatim>\<open>not op_result and self != other\<close>,
  \<^verbatim>\<open>__le__\<close> is \<^verbatim>\<open>op_result or self == other\<close>,
  \<^verbatim>\<open>__ge__\<close> is \<^verbatim>\<open>not op_result\<close>, with
  \<^verbatim>\<open>op_result = type(self).__lt__(self, other)\<close>.
\<close>

definition Ver_gt :: "Ver \<Rightarrow> Ver \<Rightarrow> pyres" where
  "Ver_gt self other = PBool (\<not> truthy (Ver_lt self other) \<and> \<not> Ver_eq self other)"

definition Ver_le :: "Ver \<Rightarrow> Ver \<Rightarrow> pyres" where
  "Ver_le self other =
     (if truthy (Ver_lt self other) then Ver_lt self other else PBool (Ver_eq self other))"

definition Ver_ge :: "Ver \<Rightarrow> Ver \<Rightarrow> pyres" where
  "Ver_ge self other = PBool (\<not> truthy (Ver_lt self other))"


section \<open>McVer and McVerMatch: game versions (common.py)\<close>

text \<open>
  \<^verbatim>\<open>@total_ordering @dataclass(frozen=True, ...) class McVer\<close> with fields
  \<^verbatim>\<open>major: int, minor: int, patch: int, suffix: str = '', snapshot: str = ''\<close>.
\<close>

record McVer =
  major :: int
  minor :: int
  patch :: int
  suffix :: string
  snapshot :: string

text \<open>
  \<^verbatim>\<open>
    @property
    def cmp(self): return (self.major, self.minor, self.patch,
                           self.suffix or 'release', self.snapshot or 'zzzzzz')
  \<close>
\<close>

definition cmp :: "McVer \<Rightarrow> int \<times> int \<times> int \<times> string \<times> string" where
  "cmp self = (major self, minor self, patch self,
               (if suffix self \<noteq> [] then suffix self else ''release''),
               (if snapshot self \<noteq> [] then snapshot self else ''zzzzzz''))"

text \<open>
  Python compares tuples lexicographically: the first position where the two differ
  decides, and equal tuples are not \<^verbatim>\<open><\<close>.
\<close>

fun tuple_lt :: "int \<times> int \<times> int \<times> string \<times> string \<Rightarrow> int \<times> int \<times> int \<times> string \<times> string \<Rightarrow> bool" where
  "tuple_lt (a1, a2, a3, a4, a5) (b1, b2, b3, b4, b5) =
     (if a1 \<noteq> b1 then a1 < b1
      else if a2 \<noteq> b2 then a2 < b2
      else if a3 \<noteq> b3 then a3 < b3
      else if a4 \<noteq> b4 then py_str_lt a4 b4
      else if a5 \<noteq> b5 then py_str_lt a5 b5
      else False)"

text \<open>
  \<^verbatim>\<open>McVer.__lt__\<close>: \<^verbatim>\<open>return self.cmp < other.cmp\<close>; the dataclass
  \<^verbatim>\<open>__eq__\<close>; and \<^verbatim>\<open>__ge__\<close> as \<^verbatim>\<open>@total_ordering\<close> derives it
  (\<^verbatim>\<open>not self.__lt__(other)\<close>).
\<close>

definition McVer_lt :: "McVer \<Rightarrow> McVer \<Rightarrow> bool" where
  "McVer_lt self other = tuple_lt (cmp self) (cmp other)"

definition McVer_eq :: "McVer \<Rightarrow> McVer \<Rightarrow> bool" where
  "McVer_eq self other =
     ((major self, minor self, patch self, suffix self, snapshot self)
      = (major other, minor other, patch other, suffix other, snapshot other))"

definition McVer_ge :: "McVer \<Rightarrow> McVer \<Rightarrow> bool" where
  "McVer_ge self other = (\<not> McVer_lt self other)"

text \<open>\<^verbatim>\<open>McVer(major, minor, patch)\<close>: the constructor with the defaults of \<^verbatim>\<open>suffix\<close> and \<^verbatim>\<open>snapshot\<close>.\<close>

definition McVer3 :: "int \<Rightarrow> int \<Rightarrow> int \<Rightarrow> McVer" where
  "McVer3 a b c = \<lparr>major = a, minor = b, patch = c, suffix = [], snapshot = []\<rparr>"

text \<open>
  \<^verbatim>\<open>class McVerMatch\<close> with fields \<^verbatim>\<open>ver: McVer|None\<close> and
  \<^verbatim>\<open>operator: str = ''\<close>; \<^verbatim>\<open>McVerMatch.ANY = McVerMatch(None)\<close>.
\<close>

record McVerMatch =
  ver :: "McVer option"
  operator :: string

definition McVerMatch_ANY :: McVerMatch where
  "McVerMatch_ANY = \<lparr>McVerMatch.ver = None, McVerMatch.operator = []\<rparr>"

text \<open>
  \<^verbatim>\<open>
    def __call__(self, other: McVer) -> bool:
        if not self.ver: return True
        match self.operator:
            case '': return self.ver == other
            case '^': return self.ver >= other and other.minor == self.ver.minor
                             and other.major == self.ver.major
            case _: raise Exception(f'Unknown operator {self.operator}')
  \<close>
  A \<^verbatim>\<open>McVer\<close> defines neither \<^verbatim>\<open>__bool__\<close> nor \<^verbatim>\<open>__len__\<close>, so
  \<^verbatim>\<open>not self.ver\<close> holds for \<^verbatim>\<open>None\<close> only.
\<close>

definition McVerMatch_call :: "McVerMatch \<Rightarrow> McVer \<Rightarrow> error + bool" where
  "McVerMatch_call self other =
     (case McVerMatch.ver self of
        None \<Rightarrow> Inr True
      | Some v \<Rightarrow>
          if McVerMatch.operator self = [] then Inr (McVer_eq v other)
          else if McVerMatch.operator self = ''^'' then
            Inr (McVer_ge v other \<and> minor other = minor v \<and> major other = major v)
          else Inl UnknownOperator)"

text \<open>\<^verbatim>\<open>def __bool__(self): return bool(self.ver)\<close>.\<close>

definition McVerMatch_bool :: "McVerMatch \<Rightarrow> bool" where
  "McVerMatch_bool self = (McVerMatch.ver self \<noteq> None)"


section \<open>VerCmp and VerMatch: version ranges (common.py)\<close>

record VerCmp =
  ver :: "Ver option"
  operator :: string

text \<open>
  \<^verbatim>\<open>
    def __call__(self, other: Ver) -> bool:
        if (ver := self.ver) is None: return True
        match self.operator:
            case '': return ver == other
            case '<': return ver < other
            case '<=': return ver <= other
            case '>': return ver > other
            case '>=': return ver >= other
            case _: raise ValueError(self.operator)
  \<close>
\<close>

definition VerCmp_call :: "VerCmp \<Rightarrow> Ver \<Rightarrow> error + pyres" where
  "VerCmp_call self other =
     (case VerCmp.ver self of
        None \<Rightarrow> Inr (PBool True)
      | Some v \<Rightarrow>
          if VerCmp.operator self = [] then Inr (PBool (Ver_eq v other))
          else if VerCmp.operator self = ''<'' then Inr (Ver_lt v other)
          else if VerCmp.operator self = ''<='' then Inr (Ver_le v other)
          else if VerCmp.operator self = ''>'' then Inr (Ver_gt v other)
          else if VerCmp.operator self = ''>='' then Inr (Ver_ge v other)
          else Inl ValueError)"

text \<open>
  \<^verbatim>\<open>class VerMatch\<close> with \<^verbatim>\<open>criteria: tuple[VerCmp] = ()\<close> and
  \<^verbatim>\<open>min_ver_type: VerType = VerType.ALPHA\<close>; \<^verbatim>\<open>VerMatch.ANY = VerMatch()\<close>.
\<close>

record VerMatch =
  criteria :: "VerCmp list"
  min_ver_type :: VerType

definition VerMatch_ANY :: VerMatch where
  "VerMatch_ANY = \<lparr>criteria = [], min_ver_type = ALPHA\<rparr>"

text \<open>
  \<^verbatim>\<open>all(c(other) for c in self.criteria)\<close>: stops at the first falsy result; an
  exception of a criterion propagates.
\<close>

fun all_criteria :: "VerCmp list \<Rightarrow> Ver \<Rightarrow> error + bool" where
  "all_criteria [] other = Inr True"
| "all_criteria (c # cs) other =
     (case VerCmp_call c other of
        Inl e \<Rightarrow> Inl e
      | Inr r \<Rightarrow> if truthy r then all_criteria cs other else Inr False)"

text \<open>
  \<^verbatim>\<open>
    def __call__(self, other: Ver):
        if self.min_ver_type > other.type: return False
        return all(c(other) for c in self.criteria)
  \<close>
\<close>

definition VerMatch_call :: "VerMatch \<Rightarrow> Ver \<Rightarrow> error + bool" where
  "VerMatch_call self other =
     (if VerType_value (min_ver_type self) > VerType_value (type other) then Inr False
      else all_criteria (criteria self) other)"


section \<open>ModVer and ModVerMatch: published versions and their acceptance (modinfo.py)\<close>

datatype Loader = FORGE | FABRIC | LITELOADER | MODLOADER | QUILT | RIFT

text \<open>
  A point in time (\<^verbatim>\<open>datetime\<close>) is its number of microseconds on the time line,
  a \<^verbatim>\<open>timedelta\<close> a number of microseconds.
\<close>

type_synonym datetime = int

text \<open>
  \<^verbatim>\<open>class ModVer\<close>: \<^verbatim>\<open>id, version_string, version_type, title, loaders:
  frozenset[Loader], published: datetime, mcversions: frozenset[McVer]\<close>.
  \<open>loaders\<close> is only tested for emptiness and membership and is a set;
  \<open>mcversions\<close> is iterated and is the list of its elements in iteration order.
  The derived property
  \<^verbatim>\<open>version = Ver(strip_mcver(self.version_string, self.mcversions), self.version_type)\<close>
  depends on a regular-expression normaliser; the token tuple it returns for this
  version is the field \<open>stripped\<close>.
\<close>

record ModVer =
  id' :: string
  version_string :: string
  version_type :: VerType
  title :: "string option"
  loaders :: "Loader set"
  published :: datetime
  mcversions :: "McVer list"
  stripped :: "tok list"

definition ModVer_version :: "ModVer \<Rightarrow> Ver" where
  "ModVer_version self = \<lparr>version = stripped self, type = version_type self\<rparr>"

text \<open>
  \<^verbatim>\<open>
    def __lt__(self, other):
        return self.published < other.published if self.version == other.version
               else self.version < other.version
  \<close>
\<close>

definition ModVer_lt :: "ModVer \<Rightarrow> ModVer \<Rightarrow> pyres" where
  "ModVer_lt self other =
     (if Ver_eq (ModVer_version self) (ModVer_version other)
      then PBool (published self < published other)
      else Ver_lt (ModVer_version self) (ModVer_version other))"

text \<open>
  \<^verbatim>\<open>class ModVerMatch\<close>: \<^verbatim>\<open>ver: VerMatch, loader: Loader|None, mcver: McVerMatch,
  mcver_fallback: McVerMatch|None = None, ver_str_match: str|None = None\<close>.
\<close>

record ModVerMatch =
  ver :: VerMatch
  loader :: "Loader option"
  mcver :: McVerMatch
  mcver_fallback :: "McVerMatch option"
  ver_str_match :: "string option"

definition RESULT_FAIL :: int where "RESULT_FAIL = 0"
definition RESULT_FALLBACK :: int where "RESULT_FALLBACK = 1"
definition RESULT_SUCCESS :: int where "RESULT_SUCCESS = 2"

text \<open>
  \<^verbatim>\<open>str.lower()\<close> on 8-bit characters: A-Z and the upper-case letters of Latin-1
  move up by 32, which sets the bit of weight 32 in their code.
\<close>

definition lower_char :: "char \<Rightarrow> char" where
  "lower_char c =
     (let n = (of_char c :: nat) in
      if (65 \<le> n \<and> n \<le> 90) \<or> (192 \<le> n \<and> n \<le> 222 \<and> n \<noteq> 215)
      then (case c of Char b0 b1 b2 b3 b4 b5 b6 b7 \<Rightarrow> Char b0 b1 b2 b3 b4 True b6 b7)
      else c)"

definition lower :: "string \<Rightarrow> string" where
  "lower s = map lower_char s"

text \<open>\<^verbatim>\<open>a in b\<close> for strings: \<open>a\<close> occurs in \<open>b\<close> as a contiguous substring.\<close>

fun starts_with :: "string \<Rightarrow> string \<Rightarrow> bool" where
  "starts_with [] b = True"
| "starts_with (x # xs) [] = False"
| "starts_with (x # xs) (y # ys) = (x = y \<and> starts_with xs ys)"

fun str_in :: "string \<Rightarrow> string \<Rightarrow> bool" where
  "str_in a [] = (a = [])"
| "str_in a (y # ys) = (starts_with a (y # ys) \<or> str_in a ys)"

text \<open>
  \<^verbatim>\<open>any(map(f, xs))\<close>: stops at the first true result; an exception of \<open>f\<close> on
  an element reached before that propagates.
\<close>

fun any_map :: "('a \<Rightarrow> error + bool) \<Rightarrow> 'a list \<Rightarrow> error + bool" where
  "any_map f [] = Inr False"
| "any_map f (x # xs) =
     (case f x of Inl e \<Rightarrow> Inl e | Inr b \<Rightarrow> if b then Inr True else any_map f xs)"

text \<open>
  \<^verbatim>\<open>
    def test(self, v: ModVer, *, fallback: bool = True):
        if not self.ver(v.version): return self.RESULT_FAIL
        if self.loader and v.loaders and self.loader not in v.loaders:
            return self.RESULT_FAIL
        if self.ver_str_match and
           self.ver_str_match.lower() not in v.version_string.lower():
            return self.RESULT_FAIL
        if any(map(self.mcver, v.mcversions)):
            return self.RESULT_SUCCESS
        if fallback and self.mcver_fallback and
           any(map(self.mcver_fallback, v.mcversions)):
            return self.RESULT_FALLBACK
        return self.RESULT_FAIL
  \<close>
  A \<^verbatim>\<open>Loader\<close> is a \<^verbatim>\<open>str\<close> enum none of whose values is empty, so
  \<^verbatim>\<open>self.loader\<close> is falsy for \<^verbatim>\<open>None\<close> only; \<^verbatim>\<open>self.ver_str_match\<close> is
  falsy for \<^verbatim>\<open>None\<close> and for the empty string; \<^verbatim>\<open>self.mcver_fallback\<close> is falsy
  for \<^verbatim>\<open>None\<close> and, by \<^verbatim>\<open>McVerMatch.__bool__\<close>, for a match without a version.
\<close>

definition loader_rejects :: "Loader option \<Rightarrow> Loader set \<Rightarrow> bool" where
  "loader_rejects l ls = (case l of None \<Rightarrow> False | Some x \<Rightarrow> ls \<noteq> {} \<and> x \<notin> ls)"

definition ver_str_rejects :: "string option \<Rightarrow> string \<Rightarrow> bool" where
  "ver_str_rejects m s =
     (case m of None \<Rightarrow> False | Some x \<Rightarrow> x \<noteq> [] \<and> \<not> str_in (lower x) (lower s))"

definition test_fallback :: "McVerMatch option \<Rightarrow> bool \<Rightarrow> McVer list \<Rightarrow> error + int" where
  "test_fallback fb fallback vs =
     (case fb of
        None \<Rightarrow> Inr RESULT_FAIL
      | Some m \<Rightarrow>
          if fallback \<and> McVerMatch_bool m then
            (case any_map (McVerMatch_call m) vs of
               Inl e \<Rightarrow> Inl e
             | Inr b \<Rightarrow> if b then Inr RESULT_FALLBACK else Inr RESULT_FAIL)
          else Inr RESULT_FAIL)"

definition test :: "ModVerMatch \<Rightarrow> ModVer \<Rightarrow> bool \<Rightarrow> error + int" where
  "test self v fallback =
     (case VerMatch_call (ModVerMatch.ver self) (ModVer_version v) of
        Inl e \<Rightarrow> Inl e
      | Inr ok \<Rightarrow>
          if \<not> ok then Inr RESULT_FAIL
          else if loader_rejects (loader self) (loaders v) then Inr RESULT_FAIL
          else if ver_str_rejects (ver_str_match self) (version_string v) then Inr RESULT_FAIL
          else (case any_map (McVerMatch_call (mcver self)) (mcversions v) of
                  Inl e \<Rightarrow> Inl e
                | Inr b \<Rightarrow>
                    if b then Inr RESULT_SUCCESS
                    else test_fallback (mcver_fallback self) fallback (mcversions v)))"

text \<open>\<^verbatim>\<open>def test_no_fallback(self, v: ModVer): return self.test(v, fallback=False)\<close>.\<close>

definition test_no_fallback :: "ModVerMatch \<Rightarrow> ModVer \<Rightarrow> error + int" where
  "test_no_fallback self v = test self v False"


section \<open>Project metadata: ModVerInfo, ModDesc, ModInfo (modinfo.py)\<close>

datatype HashType = MD5 | SHA1 | SHA256 | SHA512

record Hash =
  type :: HashType
  digest :: string

record ModFile =
  filename :: string
  size :: "int option"
  hash :: Hash
  url :: "string option"

record Dep =
  is_required :: bool
  id' :: string
  ver_id :: "string option"

record ModVerInfo =
  file' :: ModFile
  dependencies :: "Dep list"
  changelog :: "string option"

record ModVerPair =
  ver :: ModVer
  info :: "ModVerInfo option"

datatype Type = MOD | SHADERPACK | DATAPACK | RESOURCEPACK

datatype LicenseType = CLOSED | PERMISSIVE | COPYLEFT | LGPL | CUSTOM | DANGEROUS

record License =
  type :: LicenseType
  name :: string

datatype SideSupport = UNSUPPORTED | OPTIONAL | REQUIRED

record ModDesc =
  id' :: string
  type :: Type
  name :: string
  title :: "string option"
  updated :: "datetime option"
  created :: "datetime option"
  license :: "License option"
  short_desc :: "string option"
  desc :: "string option"
  client_side :: "SideSupport option"
  server_side :: "SideSupport option"
  issues_url :: "string option"
  source_url :: "string option"
  wiki_url :: "string option"
  discord_url :: "string option"

text \<open>
  \<^verbatim>\<open>class ModInfo\<close>: \<^verbatim>\<open>checked: datetime, mod_desc: ModDesc, versions: list[ModVer],
  version_info: dict[str, ModVerInfo]\<close>.
\<close>

record ModInfo =
  checked :: datetime
  mod_desc :: ModDesc
  versions :: "ModVer list"
  version_info :: "string \<rightharpoonup> ModVerInfo"


subsection \<open>Sorting\<close>

text \<open>
  \<^verbatim>\<open>list.sort\<close> and \<^verbatim>\<open>sorted\<close> belong to the Python runtime. They compare
  with \<^verbatim>\<open><\<close> only, reading each result for its truth value, they return a
  rearrangement of the list, and they are stable. Which rearrangement they return is
  fixed only where \<^verbatim>\<open><\<close> is consistent, and \<^verbatim>\<open>ModVer.__lt__\<close> is not
  always (see \<open>Ver_lt\<close>); on other inputs it depends on the run detection and the
  insertion and merge steps of the runtime at hand. The functions that sort therefore
  take the runtime's ascending sort as the parameter \<open>srt\<close>: \<open>srt lt xs\<close> is what
  \<^verbatim>\<open>list.sort\<close> makes of \<open>xs\<close> when \<open>lt a b\<close> is the truth value of
  \<^verbatim>\<open>a < b\<close>.
\<close>

type_synonym list_sort = "(ModVer \<Rightarrow> ModVer \<Rightarrow> bool) \<Rightarrow> ModVer list \<Rightarrow> ModVer list"

text \<open>
  The stable insertion sort: each element goes in front of the first element of the sorted
  prefix that it is \<^verbatim>\<open><\<close> than. Where \<^verbatim>\<open><\<close> is a strict weak order on the
  elements, the stably sorted list is unique and this is it.
\<close>

fun insert_lt :: "('a \<Rightarrow> 'a \<Rightarrow> bool) \<Rightarrow> 'a \<Rightarrow> 'a list \<Rightarrow> 'a list" where
  "insert_lt lt x [] = [x]"
| "insert_lt lt x (y # ys) = (if lt x y then x # y # ys else y # insert_lt lt x ys)"

definition sort_lt :: "('a \<Rightarrow> 'a \<Rightarrow> bool) \<Rightarrow> 'a list \<Rightarrow> 'a list" where
  "sort_lt lt xs = foldl (\<lambda>acc x. insert_lt lt x acc) [] xs"

text \<open>
  A strict weak order on a set of elements: irreflexive, transitive, and with a transitive
  complement (so that being incomparable is an equivalence).
\<close>

definition strict_weak :: "('a \<Rightarrow> 'a \<Rightarrow> bool) \<Rightarrow> 'a set \<Rightarrow> bool" where
  "strict_weak lt S =
     ((\<forall>a \<in> S. \<not> lt a a)
      \<and> (\<forall>a \<in> S. \<forall>b \<in> S. \<forall>c \<in> S. lt a b \<and> lt b c \<longrightarrow> lt a c)
      \<and> (\<forall>a \<in> S. \<forall>b \<in> S. \<forall>c \<in> S. \<not> lt a b \<and> \<not> lt b c \<longrightarrow> \<not> lt a c))"


text \<open>
  With \<^verbatim>\<open>reverse=True\<close> the list is reversed, sorted ascending and reversed again,
  which keeps equal elements in their original order.
\<close>

definition sorted_reverse :: "list_sort \<Rightarrow> (ModVer \<Rightarrow> ModVer \<Rightarrow> bool) \<Rightarrow> ModVer list \<Rightarrow> ModVer list" where
  "sorted_reverse srt lt xs = rev (srt lt (rev xs))"

text \<open>The comparison \<^verbatim>\<open>sorted(versions, reverse=True)\<close> uses on \<^verbatim>\<open>ModVer\<close> values.\<close>

definition ModVer_less :: "ModVer \<Rightarrow> ModVer \<Rightarrow> bool" where
  "ModVer_less a b = truthy (ModVer_lt a b)"

text \<open>
  The comparison of \<^verbatim>\<open>sorted(..., key=lambda x: x.published, reverse=True)\<close>: the
  keys are compared in place of the elements.
\<close>

definition published_less :: "ModVer \<Rightarrow> ModVer \<Rightarrow> bool" where
  "published_less a b = (published a < published b)"


subsection \<open>Selecting versions\<close>

text \<open>
  \<^verbatim>\<open>list(filter(f, xs))\<close> for a test \<open>f\<close> that returns one of the three result
  codes: an element stays when the code is truthy (not 0); an exception of \<open>f\<close>
  propagates.
\<close>

fun filter_test :: "('a \<Rightarrow> error + int) \<Rightarrow> 'a list \<Rightarrow> error + 'a list" where
  "filter_test f [] = Inr []"
| "filter_test f (x # xs) =
     (case f x of
        Inl e \<Rightarrow> Inl e
      | Inr r \<Rightarrow>
          (case filter_test f xs of
             Inl e \<Rightarrow> Inl e
           | Inr ys \<Rightarrow> Inr (if r \<noteq> 0 then x # ys else ys)))"

text \<open>
  \<^verbatim>\<open>
    def get_versions(self, mvm: ModVerMatch):
        versions = list(filter(mvm.test_no_fallback, self.versions))
        if not versions: versions = list(filter(mvm.test, self.versions))
        return sorted(versions, reverse=True)
  \<close>
\<close>

definition get_versions :: "list_sort \<Rightarrow> ModInfo \<Rightarrow> ModVerMatch \<Rightarrow> error + ModVer list" where
  "get_versions srt self mvm =
     (case filter_test (test_no_fallback mvm) (versions self) of
        Inl e \<Rightarrow> Inl e
      | Inr vs \<Rightarrow>
          (case (if vs = [] then filter_test (\<lambda>v. test mvm v True) (versions self) else Inr vs) of
             Inl e \<Rightarrow> Inl e
           | Inr vs' \<Rightarrow> Inr (sorted_reverse srt ModVer_less vs')))"

text \<open>
  \<^verbatim>\<open>def get_latest_version(self, mvm): return next(iter(self.get_versions(mvm)), None)\<close>.
\<close>

definition get_latest_version :: "list_sort \<Rightarrow> ModInfo \<Rightarrow> ModVerMatch \<Rightarrow> error + ModVer option" where
  "get_latest_version srt self mvm =
     (case get_versions srt self mvm of
        Inl e \<Rightarrow> Inl e
      | Inr vs \<Rightarrow> Inr (case vs of [] \<Rightarrow> None | v # rest \<Rightarrow> Some v))"


section \<open>The resolver: find_version and ResolvedMod (resolve.py)\<close>

text \<open>
  \<^verbatim>\<open>
    class Warnings(dict):
        def add(self, mod: str, warning: str):
            if d := self.get(mod): d.append(warning)
            else: self[mod] = [warning]
  \<close>
\<close>

type_synonym Warnings = "string \<rightharpoonup> string list"

definition Warnings_add :: "Warnings \<Rightarrow> string \<Rightarrow> string \<Rightarrow> Warnings" where
  "Warnings_add self m warning =
     (case self m of
        None \<Rightarrow> self(m \<mapsto> [warning])
      | Some d \<Rightarrow> if d \<noteq> [] then self(m \<mapsto> d @ [warning]) else self(m \<mapsto> [warning]))"

text \<open>The warning text is a plain string literal in the source (it has no \<^verbatim>\<open>f\<close> prefix).\<close>

definition older_warning :: string where
  "older_warning = ''version {latest.version} is older than {vers[0].version}''"

text \<open>
  \<^verbatim>\<open>
    async def find_version(manager, name, type, source, mvm, *, warnings):
        info = await manager.get_modinfo(source, type, name)
        latest = info.get_latest_version(mvm)
        vers = sorted(info.get_versions(mvm), key=lambda x: x.published, reverse=True)
        if latest.published != vers[0].published:
            warnings.add(name, 'version {latest.version} is older than {vers[0].version}')
        pair = await manager.get_version_info(source, info, latest)
        return info, pair
  \<close>
  The two calls on the manager are the parameters \<open>got\<close> (the exception
  \<^verbatim>\<open>manager.get_modinfo(source, type, name)\<close> raises, or the value of the object it
  returns) and \<open>get_version_info\<close>.
  \<^verbatim>\<open>warnings\<close> is updated in place, so the updated value is part of the outcome
  also when the function raises. \<^verbatim>\<open>latest.published\<close> on \<^verbatim>\<open>None\<close> is an
  \<^verbatim>\<open>AttributeError\<close>.
\<close>

definition find_version ::
  "list_sort \<Rightarrow> (error + ModInfo) \<Rightarrow> (ModInfo \<Rightarrow> ModVer \<Rightarrow> error + ModVerPair) \<Rightarrow> string
     \<Rightarrow> ModVerMatch \<Rightarrow> Warnings \<Rightarrow> (error + ModInfo \<times> ModVerPair) \<times> Warnings" where
  "find_version srt got get_version_info nm mvm warnings =
     (case got of
        Inl e \<Rightarrow> (Inl e, warnings)
      | Inr minfo \<Rightarrow>
          (case get_latest_version srt minfo mvm of
             Inl e \<Rightarrow> (Inl e, warnings)
           | Inr latest \<Rightarrow>
               (case get_versions srt minfo mvm of
                  Inl e \<Rightarrow> (Inl e, warnings)
                | Inr vs \<Rightarrow>
                    (case (latest, sorted_reverse srt published_less vs) of
                       (None, vers) \<Rightarrow> (Inl AttributeError, warnings)
                     | (Some l, []) \<Rightarrow> (Inl IndexError, warnings)
                     | (Some l, v0 # rest) \<Rightarrow>
                         (let w = (if published l \<noteq> published v0
                                   then Warnings_add warnings nm older_warning
                                   else warnings)
                          in (case get_version_info minfo l of
                                Inl e \<Rightarrow> (Inl e, w)
                              | Inr pair \<Rightarrow> (Inr (minfo, pair), w)))))))"

datatype SourceType = MODRINTH | CURSEFORGE | LOCAL

text \<open>
  The manifest entry a resolution comes from (\<^verbatim>\<open>ModConf\<close>, modpakyml.py). Its
  fields take no part in what is modelled; the entry is kept by its name and
  version range. A \<^verbatim>\<open>ModConf\<close> defines neither \<^verbatim>\<open>__bool__\<close> nor
  \<^verbatim>\<open>__len__\<close>, so every entry is truthy.
\<close>

record ModConf =
  name :: string
  version :: VerMatch

text \<open>
  \<^verbatim>\<open>
    @dataclass(slots=True)
    class ResolvedMod:
        mod: ModInfo
        ver: ModVerPair
        source: Source
        conf: ModConf|None = None
        dependents: list = field(default_factory = list)
  \<close>
  \<^verbatim>\<open>ModInfo\<close> is a mutable object and \<^verbatim>\<open>__and__\<close> compares the two
  \<^verbatim>\<open>mod\<close> fields with \<^verbatim>\<open>is\<close>: the field holds a reference, the address
  of a \<^verbatim>\<open>ModInfo\<close> object (the objects themselves are in the \<open>state\<close> of the
  info manager below). \<^verbatim>\<open>resolve\<close> passes a \<^verbatim>\<open>SourceType\<close> for
  \<^verbatim>\<open>source\<close>.
\<close>

type_synonym ref = nat

datatype ResolvedMod =
  ResolvedMod (mod': ref) (ver: ModVerPair) (source: SourceType)
              (conf: "ModConf option") (dependents: "ResolvedMod list")

text \<open>\<^verbatim>\<open>ModVerPair.version\<close>: \<^verbatim>\<open>return self.ver.version\<close>.\<close>

definition ModVerPair_version :: "ModVerPair \<Rightarrow> Ver" where
  "ModVerPair_version p = ModVer_version (ModVerPair.ver p)"

text \<open>
  \<^verbatim>\<open>
    def __and__(self, other):
        if other.__class__ is not ResolvedMod: return NotImplemented
        if self.mod is not other.mod: raise ValueError
        return ResolvedMod(self.mod,
                           self.ver if self.ver.version >= other.ver.version else other.ver,
                           self.source, self.conf or other.conf,
                           self.dependents + other.dependents)
  \<close>
  Both operands are \<^verbatim>\<open>ResolvedMod\<close> values here.
\<close>

definition ResolvedMod_and :: "ResolvedMod \<Rightarrow> ResolvedMod \<Rightarrow> error + ResolvedMod" where
  "ResolvedMod_and self other =
     (if mod' self \<noteq> mod' other then Inl ValueError
      else Inr (ResolvedMod
                  (mod' self)
                  (if truthy (Ver_ge (ModVerPair_version (ResolvedMod.ver self))
                                     (ModVerPair_version (ResolvedMod.ver other)))
                   then ResolvedMod.ver self else ResolvedMod.ver other)
                  (source self)
                  (case conf self of Some c \<Rightarrow> Some c | None \<Rightarrow> conf other)
                  (dependents self @ dependents other)))"


section \<open>The metadata cache and the info manager (infomanager.py)\<close>

text \<open>
  A registry backend (modrinth.py, curseforge.py) is an external collaborator: here it is
  the pair of functions \<^verbatim>\<open>get_modinfo\<close> calls on it, each returning its value or
  the exception it raises. \<^verbatim>\<open>get_versions\<close> returns the version list and a
  dictionary of version details, or \<^verbatim>\<open>None\<close> in place of the dictionary.
\<close>

record Backend =
  get_moddesc :: "Type \<Rightarrow> string \<Rightarrow> error + ModDesc"
  fetch_versions :: "ModDesc \<Rightarrow> error + ModVer list \<times> (string \<rightharpoonup> ModVerInfo) option"

text \<open>The backend calls a run makes, in order.\<close>

datatype call = GetModDesc SourceType Type string | GetVersions SourceType ModDesc

text \<open>
  \<^verbatim>\<open>ModInfoCache.cache: dict[CacheKey, ModInfo|Exception]\<close>, with keys
  \<^verbatim>\<open>(by, src, id)\<close>; a stored \<^verbatim>\<open>None\<close> records a file that was not there.
  A \<^verbatim>\<open>ModInfo\<close> in the dictionary is a reference to the object: the same object is
  stored under its id and under its name, and \<^verbatim>\<open>get_modinfo\<close> changes a cached
  object in place.
\<close>

datatype entry = NoFile | Info ref | Raised error

type_synonym CacheKey = "string \<times> SourceType \<times> string"

text \<open>
  A \<^verbatim>\<open>ModInfo\<close> object holds its list of versions and its dictionary of version
  details by reference: two objects can hold the same list or the same dictionary, and a
  change made through one is seen through the other.
\<close>

record ModInfoObj =
  obj_checked :: datetime
  obj_mod_desc :: ModDesc
  obj_versions :: ref
  obj_version_info :: ref

text \<open>
  The state a call works on: the dictionary \<^verbatim>\<open>self.cache.cache\<close>, the
  \<^verbatim>\<open>ModInfo\<close> objects, the version lists and the detail dictionaries by address,
  and the next address not yet in use.
\<close>

record state =
  cache :: "CacheKey \<rightharpoonup> entry"
  objs :: "ref \<Rightarrow> ModInfoObj"
  lists :: "ref \<Rightarrow> ModVer list"
  dicts :: "ref \<Rightarrow> (string \<rightharpoonup> ModVerInfo)"
  next_ref :: ref

text \<open>What is read through the object at an address: its fields, the list and the dictionary followed.\<close>

definition read_info :: "state \<Rightarrow> ref \<Rightarrow> ModInfo" where
  "read_info st r =
     \<lparr>checked = obj_checked (objs st r), mod_desc = obj_mod_desc (objs st r),
      versions = lists st (obj_versions (objs st r)),
      version_info = dicts st (obj_version_info (objs st r))\<rparr>"

text \<open>A new object, list or dictionary: it gets the next address.\<close>

definition new_object :: "state \<Rightarrow> ModInfoObj \<Rightarrow> ref \<times> state" where
  "new_object st v =
     (next_ref st, st\<lparr>objs := (objs st)(next_ref st := v), next_ref := Suc (next_ref st)\<rparr>)"

definition new_list :: "state \<Rightarrow> ModVer list \<Rightarrow> ref \<times> state" where
  "new_list st vs =
     (next_ref st, st\<lparr>lists := (lists st)(next_ref st := vs), next_ref := Suc (next_ref st)\<rparr>)"

definition new_dict :: "state \<Rightarrow> (string \<rightharpoonup> ModVerInfo) \<Rightarrow> ref \<times> state" where
  "new_dict st m =
     (next_ref st, st\<lparr>dicts := (dicts st)(next_ref st := m), next_ref := Suc (next_ref st)\<rparr>)"

text \<open>
  The constructor \<^verbatim>\<open>ModInfo(checked, mod_desc, versions, version_info)\<close>:
  \<^verbatim>\<open>__post_init__\<close> runs \<^verbatim>\<open>self.versions.sort(reverse=True)\<close>, which sorts
  the list it was given in place, so every other object that holds the same list sees it
  sorted.
\<close>

definition ModInfo_init :: "list_sort \<Rightarrow> state \<Rightarrow> datetime \<Rightarrow> ModDesc \<Rightarrow> ref \<Rightarrow> ref \<Rightarrow> ref \<times> state" where
  "ModInfo_init srt st c d lr dr =
     new_object
       (st\<lparr>lists := (lists st)(lr := sorted_reverse srt ModVer_less (lists st lr))\<rparr>)
       \<lparr>obj_checked = c, obj_mod_desc = d, obj_versions = lr, obj_version_info = dr\<rparr>"

text \<open>
  The files under the cache directory, as \<^verbatim>\<open>_get_by\<close> reads them: \<open>None\<close> when
  \<^verbatim>\<open>access(p, R_OK)\<close> fails, otherwise the exception
  \<^verbatim>\<open>deserialize(ModInfo, json.load(open(p, 'r')))\<close> raises for the file of that
  key, or the four field values it parses from the file and calls the constructor with.
\<close>

type_synonym disk = "CacheKey \<rightharpoonup> (error + ModInfo)"

text \<open>
  \<^verbatim>\<open>
    def _path_by(self, by, src, name):
        parent = path.join(self.dirs_by_src[src], by)
        p = path.join(parent, f'{name}.json')
        if path.dirname(p) != parent: raise ValueError(f'Invalid name {name}')
        return p
  \<close>
  \<^verbatim>\<open>dirs_by_src\<close> has no entry for \<^verbatim>\<open>SourceType.LOCAL\<close>; the directory of
  \<open>p\<close> is \<open>parent\<close> unless the name holds a path separator. \<open>None\<close> is a path
  returned.
\<close>

definition path_by :: "SourceType \<Rightarrow> string \<Rightarrow> error option" where
  "path_by src nm =
     (if src = LOCAL then Some KeyError
      else if CHR ''/'' \<in> set nm then Some ValueError
      else None)"

text \<open>
  \<^verbatim>\<open>
    def _get_by(self, by, src, id):
        key = (by, src, id)
        result = self.cache.get(key, False)
        if result is False:
            p = _path_by(self, by, src, id)
            if not access(p, R_OK):
                result = None
                self.cache[key] = result
            else:
                try:
                    result = deserialize(ModInfo, json.load(open(p, 'r')))
                    self.cache[('by_id', src, result.id)] = result
                    self.cache[('by_name', src, result.name)] = result
                except Exception as e:
                    result = e
                    self.cache[key] = result
        if isinstance(result, Exception): raise result
        return result
  \<close>
  A \<^verbatim>\<open>ModInfo\<close> read from a file is a new object with a new list and a new
  dictionary.
\<close>

definition entry_result :: "entry \<Rightarrow> error + ref option" where
  "entry_result r = (case r of NoFile \<Rightarrow> Inr None | Info i \<Rightarrow> Inr (Some i) | Raised e \<Rightarrow> Inl e)"

definition get_by :: "list_sort \<Rightarrow> string \<Rightarrow> disk \<Rightarrow> state \<Rightarrow> SourceType \<Rightarrow> string
    \<Rightarrow> (error + ref option) \<times> state" where
  "get_by srt by dsk st src ident =
     (case cache st (by, src, ident) of
        Some r \<Rightarrow> (entry_result r, st)
      | None \<Rightarrow>
          (case path_by src ident of
             Some e \<Rightarrow> (Inl e, st)
           | None \<Rightarrow>
               (case dsk (by, src, ident) of
                  None \<Rightarrow> (Inr None, st\<lparr>cache := (cache st)((by, src, ident) \<mapsto> NoFile)\<rparr>)
                | Some (Inr i) \<Rightarrow>
                    (let (lr, st1) = new_list st (versions i);
                         (dr, st2) = new_dict st1 (version_info i);
                         (r, st3) = ModInfo_init srt st2 (checked i) (mod_desc i) lr dr
                     in (Inr (Some r),
                         st3\<lparr>cache := (cache st3)
                                ((''by_id'', src, ModDesc.id' (mod_desc i)) \<mapsto> Info r,
                                 (''by_name'', src, ModDesc.name (mod_desc i)) \<mapsto> Info r)\<rparr>))
                | Some (Inl e) \<Rightarrow>
                    (Inl e, st\<lparr>cache := (cache st)((by, src, ident) \<mapsto> Raised e)\<rparr>))))"

text \<open>
  \<^verbatim>\<open>
    def set(self, src, value):
        self.cache[('by_id', src, value.id)] = value
        self.cache[('by_name', src, value.name)] = value
        path_by_id = self.path_by_id(src, value.id)
        path_by_name = self.path_by_name(src, value.name)
        with open(path_by_id, 'w') as f: json.dump(serialize(value), f)
        if not access(path_by_name, R_OK): symlink(path_by_id, path_by_name)
        return value
  \<close>
  The files written are not read again by \<^verbatim>\<open>get_modinfo\<close>; writing them is
  left out.
\<close>

definition cache_set :: "state \<Rightarrow> SourceType \<Rightarrow> ref \<Rightarrow> (error + ref) \<times> state" where
  "cache_set st src r =
     (let d = obj_mod_desc (objs st r);
          st' = st\<lparr>cache := (cache st)
                     ((''by_id'', src, ModDesc.id' d) \<mapsto> Info r,
                      (''by_name'', src, ModDesc.name d) \<mapsto> Info r)\<rparr>
      in (case path_by src (ModDesc.id' d) of
            Some e \<Rightarrow> (Inl e, st')
          | None \<Rightarrow>
              (case path_by src (ModDesc.name d) of
                 Some e \<Rightarrow> (Inl e, st')
               | None \<Rightarrow> (Inr r, st'))))"

text \<open>
  \<^verbatim>\<open>
    RECHECK_INTERVAL_MIN: ClassVar[int] = 6 * 3600
    RECHECK_INTERVAL_MAX: ClassVar[int] = 10 * 3600
    def recheck_interval(self):
        return timedelta(0, randrange(self.RECHECK_INTERVAL_MIN, self.RECHECK_INTERVAL_MAX))
  \<close>
  The number \<^verbatim>\<open>randrange\<close> returns is the parameter \<open>drawn\<close>, a number of seconds
  with \<open>RECHECK_INTERVAL_MIN \<le> drawn < RECHECK_INTERVAL_MAX\<close>.
\<close>

definition RECHECK_INTERVAL_MIN :: int where "RECHECK_INTERVAL_MIN = 6 * 3600"
definition RECHECK_INTERVAL_MAX :: int where "RECHECK_INTERVAL_MAX = 10 * 3600"

definition recheck_interval :: "int \<Rightarrow> int" where
  "recheck_interval drawn = drawn * 1000000"

text \<open>What a run of \<^verbatim>\<open>get_modinfo\<close> depends on besides the state.\<close>

record world =
  now :: datetime
  drawn :: int
  files :: disk
  backends :: "SourceType \<rightharpoonup> Backend"

text \<open>
  \<^verbatim>\<open>
    async def get_modinfo(self, source, type, id_or_name) -> ModInfo:
        now = datetime.now()
        desc = versions = None
        version_info = {}
        try:
            if info := self.cache.get_by_name(source, id_or_name):
                if now - info.checked < self.recheck_interval():
                    return info
                desc = info.mod_desc
                versions = info.versions
                version_info = info.version_info
        except Exception as e:
            print(e)
            pass
        newdesc = await self.backends[source].get_moddesc(type, id_or_name)
        if not desc or desc.updated != newdesc.updated:
            versions, newverinfo = await self.backends[source].get_versions(newdesc)
            if newverinfo: version_info.update(newverinfo)
        info = ModInfo(now, newdesc, versions, version_info)
        return self.cache.set(source, info)
  \<close>
  \<open>revalidate\<close> is the part after the \<^verbatim>\<open>try\<close> statement; \<open>old\<close> is the
  address of the cached \<^verbatim>\<open>ModInfo\<close> whose \<^verbatim>\<open>desc\<close>, \<^verbatim>\<open>versions\<close> and
  \<^verbatim>\<open>version_info\<close> were taken over, if any. \<^verbatim>\<open>self.backends\<close> has no entry
  for \<^verbatim>\<open>SourceType.LOCAL\<close>. The outcome is the address of the object returned or the
  exception raised, the state afterwards, and the backend calls made.

  \<^verbatim>\<open>versions\<close> and \<^verbatim>\<open>version_info\<close> are the list and the dictionary of the
  cached object themselves, not copies, and the new object is built on them: when the
  descriptor is unchanged the new object holds the list of the cached one, which the
  constructor sorts, and in every case it holds the dictionary of the cached one, to
  which \<^verbatim>\<open>update\<close> adds the new details. Without a cached object the dictionary is
  the new empty one; it and the list the backend returns get their addresses when the
  object is built.
\<close>

definition merge_info :: "(string \<rightharpoonup> ModVerInfo) \<Rightarrow> (string \<rightharpoonup> ModVerInfo) option \<Rightarrow> (string \<rightharpoonup> ModVerInfo)" where
  "merge_info vi new = (case new of None \<Rightarrow> vi | Some m \<Rightarrow> vi ++ m)"

text \<open>\<^verbatim>\<open>if newverinfo: version_info.update(newverinfo)\<close> on the dictionary at \<open>dr\<close>.\<close>

definition dict_update :: "state \<Rightarrow> ref \<Rightarrow> (string \<rightharpoonup> ModVerInfo) option \<Rightarrow> state" where
  "dict_update st dr new = st\<lparr>dicts := (dicts st)(dr := merge_info (dicts st dr) new)\<rparr>"

text \<open>\<^verbatim>\<open>info = ModInfo(...)\<close> followed by \<^verbatim>\<open>return self.cache.set(source, info)\<close>.\<close>

definition store_new :: "list_sort \<Rightarrow> state \<Rightarrow> SourceType \<Rightarrow> datetime \<Rightarrow> ModDesc \<Rightarrow> ref \<Rightarrow> ref
    \<Rightarrow> (error + ref) \<times> state" where
  "store_new srt st src c d lr dr =
     (let (r, st1) = ModInfo_init srt st c d lr dr in cache_set st1 src r)"

definition revalidate :: "list_sort \<Rightarrow> world \<Rightarrow> state \<Rightarrow> SourceType \<Rightarrow> Type \<Rightarrow> string \<Rightarrow> ref option
    \<Rightarrow> (error + ref) \<times> state \<times> call list" where
  "revalidate srt w st src ty nm old =
     (case backends w src of
        None \<Rightarrow> (Inl KeyError, st, [])
      | Some b \<Rightarrow>
          (case get_moddesc b ty nm of
             Inl e \<Rightarrow> (Inl e, st, [GetModDesc src ty nm])
           | Inr newdesc \<Rightarrow>
               (case (case old of
                        None \<Rightarrow> None
                      | Some r \<Rightarrow> if updated (obj_mod_desc (objs st r)) \<noteq> updated newdesc
                                  then None else Some r) of
                  Some r \<Rightarrow>
                    (let (res, st1) = store_new srt st src (now w) newdesc
                                        (obj_versions (objs st r)) (obj_version_info (objs st r))
                     in (res, st1, [GetModDesc src ty nm]))
                | None \<Rightarrow>
                    (case fetch_versions b newdesc of
                       Inl e \<Rightarrow> (Inl e, st, [GetModDesc src ty nm, GetVersions src newdesc])
                     | Inr (vs, newverinfo) \<Rightarrow>
                         (let (dr, st1) = (case old of
                                             None \<Rightarrow> new_dict st Map.empty
                                           | Some r \<Rightarrow> (obj_version_info (objs st r), st));
                              st2 = dict_update st1 dr newverinfo;
                              (lr, st3) = new_list st2 vs;
                              (res, st4) = store_new srt st3 src (now w) newdesc lr dr
                          in (res, st4, [GetModDesc src ty nm, GetVersions src newdesc]))))))"

definition get_modinfo :: "list_sort \<Rightarrow> world \<Rightarrow> state \<Rightarrow> SourceType \<Rightarrow> Type \<Rightarrow> string
    \<Rightarrow> (error + ref) \<times> state \<times> call list" where
  "get_modinfo srt w st src ty nm =
     (case get_by srt ''by_name'' (files w) st src nm of
        (Inl e, st') \<Rightarrow> revalidate srt w st' src ty nm None
      | (Inr None, st') \<Rightarrow> revalidate srt w st' src ty nm None
      | (Inr (Some r), st') \<Rightarrow>
          if now w - obj_checked (objs st' r) < recheck_interval (drawn w) then (Inr r, st', [])
          else revalidate srt w st' src ty nm (Some r))"


section \<open>The codec of Ver (common.py, serialize.py)\<close>

text \<open>
  \<^verbatim>\<open>serialize(o)\<close> and \<^verbatim>\<open>deserialize(cls, value)\<close> of serialize.py look for a codec
  of the type's own before they recurse on its structure: for a class that is not an
  enum, \<^verbatim>\<open>_get_serializer\<close> returns \<^verbatim>\<open>type.serialize\<close> and
  \<^verbatim>\<open>_get_parser\<close> returns \<^verbatim>\<open>type.deserialize\<close> when the class has them. For
  \<^verbatim>\<open>Ver\<close> these are the two methods below.
\<close>

text \<open>\<^verbatim>\<open>s.partition(sep)\<close> for a one-character separator: the parts before and after its first occurrence.\<close>

fun partition' :: "char \<Rightarrow> string \<Rightarrow> string \<times> string \<times> string" where
  "partition' sep [] = ([], [], [])"
| "partition' sep (c # cs) =
     (if c = sep then ([], [sep], cs)
      else (case partition' sep cs of (a, m, b) \<Rightarrow> (c # a, m, b)))"

text \<open>\<^verbatim>\<open>s.split(sep)\<close> for a one-character separator; the result is never empty.\<close>

fun split :: "char \<Rightarrow> string \<Rightarrow> string list" where
  "split sep [] = [[]]"
| "split sep (c # cs) =
     (if c = sep then [] # split sep cs
      else (case split sep cs of p # ps \<Rightarrow> (c # p) # ps | [] \<Rightarrow> [[c]]))"

text \<open>
  \<^verbatim>\<open>str.isnumeric()\<close> and \<^verbatim>\<open>int(s)\<close> on 8-bit characters. The numeric
  characters are the decimal digits, the superscripts 1 to 3 and the three vulgar
  fractions; \<^verbatim>\<open>int\<close> accepts the decimal digits only and raises
  \<^verbatim>\<open>ValueError\<close> on the others.
\<close>

definition is_decimal :: "char \<Rightarrow> bool" where
  "is_decimal c = (48 \<le> (of_char c :: nat) \<and> (of_char c :: nat) \<le> 57)"

definition is_numeric_char :: "char \<Rightarrow> bool" where
  "is_numeric_char c =
     (is_decimal c \<or> (of_char c :: nat) \<in> {178, 179, 185, 188, 189, 190})"

definition isnumeric :: "string \<Rightarrow> bool" where
  "isnumeric s = (s \<noteq> [] \<and> list_all is_numeric_char s)"

definition digits_value :: "string \<Rightarrow> nat" where
  "digits_value s = foldl (\<lambda>acc c. 10 * acc + (of_char c - 48)) 0 s"

definition int_of_str :: "string \<Rightarrow> error + int" where
  "int_of_str s = (if list_all is_decimal s then Inr (int (digits_value s)) else Inl ValueError)"

text \<open>
  \<^verbatim>\<open>
    @classmethod
    def deserialize(cls, t):
        if t.__class__ is int: return cls(t)
        match (t or '').lower():
            case 'release'|'r'|'': return cls.RELEASE
            case 'alpha'|'a': return cls.ALPHA
            case 'beta'|'b': return cls.BETA
            case _: raise ValueError(t)
  \<close>
  for a \<^verbatim>\<open>str\<close> argument.
\<close>

definition VerType_deserialize :: "string \<Rightarrow> error + VerType" where
  "VerType_deserialize t =
     (let s = lower t in
      if s = ''release'' \<or> s = ''r'' \<or> s = [] then Inr RELEASE
      else if s = ''alpha'' \<or> s = ''a'' then Inr ALPHA
      else if s = ''beta'' \<or> s = ''b'' then Inr BETA
      else Inl ValueError)"

text \<open>\<^verbatim>\<open>def maybeint(s): return int(s) if s.isnumeric() else s\<close>, mapped over the parts.\<close>

definition maybeint :: "string \<Rightarrow> error + tok" where
  "maybeint s =
     (if isnumeric s then (case int_of_str s of Inl e \<Rightarrow> Inl e | Inr i \<Rightarrow> Inr (TInt i))
      else Inr (TStr s))"

fun map_maybeint :: "string list \<Rightarrow> error + tok list" where
  "map_maybeint [] = Inr []"
| "map_maybeint (s # ss) =
     (case maybeint s of
        Inl e \<Rightarrow> Inl e
      | Inr t \<Rightarrow> (case map_maybeint ss of Inl e \<Rightarrow> Inl e | Inr ts \<Rightarrow> Inr (t # ts)))"

text \<open>
  \<^verbatim>\<open>
    @classmethod
    def deserialize(cls, ver: str):
        ver, _, type = ver.partition('-')
        def maybeint(s): return int(s) if s.isnumeric() else s
        ver = tuple(map(maybeint, ver.split('.')))
        return cls(ver, VerType.deserialize(type))
  \<close>
\<close>

definition Ver_deserialize :: "string \<Rightarrow> error + Ver" where
  "Ver_deserialize s =
     (case partition' CHR ''-'' s of
        (v, m, t) \<Rightarrow>
          (case map_maybeint (split CHR ''.'' v) of
             Inl e \<Rightarrow> Inl e
           | Inr ts \<Rightarrow>
               (case VerType_deserialize t of
                  Inl e \<Rightarrow> Inl e
                | Inr ty \<Rightarrow> Inr \<lparr>Ver.version = ts, Ver.type = ty\<rparr>)))"

text \<open>
  \<^verbatim>\<open>
    def serialize(self):
        version = '.'.join(map(str, self.version))
        match self.type:
            case VerType.RELEASE: return f'{version}-RELEASE'
            case VerType.BETA: return f'{version}-BETA'
            case VerType.ALPHA: return f'{version}-ALPHA'
            case _: raise ValueError
  \<close>
\<close>

definition Ver_serialize :: "Ver \<Rightarrow> string" where
  "Ver_serialize self =
     join ''.'' (map py_str (Ver.version self)) @ ''-'' @ VerType_name (Ver.type self)"

text \<open>
  The tokens the two methods restore: an integer that is not negative, and a string that
  is not numeric and holds neither of the two separators.
\<close>

fun plain_tok :: "tok \<Rightarrow> bool" where
  "plain_tok (TInt i) = (0 \<le> i)"
| "plain_tok (TStr s) = (\<not> isnumeric s \<and> CHR ''.'' \<notin> set s \<and> CHR ''-'' \<notin> set s)"


section \<open>Example values\<close>

text \<open>
  Concrete values on which the functions above are run below: a project descriptor, a
  published release with given id, tokens, publish time and game versions, a
  \<^verbatim>\<open>ModInfo\<close> checked at a given time, the acceptance predicate \<^verbatim>\<open>resolve\<close>
  builds for a pack on game version \<open>mc\<close> with loader Forge (exact primary match,
  \<^verbatim>\<open>^\<close> fallback match), a version pair without details, a backend that answers
  every call with fixed results, and a state with one cached project: the object at
  address 0, its list at 1 and its dictionary at 2.
\<close>

definition ex_desc :: ModDesc where
  "ex_desc = \<lparr>ModDesc.id' = ''P7'', ModDesc.type = MOD, ModDesc.name = ''lithium'',
     ModDesc.title = None, updated = Some 1000, created = None, license = None,
     short_desc = None, desc = None, client_side = None, server_side = None,
     issues_url = None, source_url = None, wiki_url = None, discord_url = None\<rparr>"

definition ex_modver :: "string \<Rightarrow> tok list \<Rightarrow> datetime \<Rightarrow> McVer list \<Rightarrow> ModVer" where
  "ex_modver i ts p mcs = \<lparr>ModVer.id' = i, version_string = i, version_type = RELEASE,
     ModVer.title = None, loaders = {}, published = p, mcversions = mcs, stripped = ts\<rparr>"

definition ex_info :: "datetime \<Rightarrow> ModVer list \<Rightarrow> ModInfo" where
  "ex_info c vs = \<lparr>checked = c, mod_desc = ex_desc, versions = vs, version_info = Map.empty\<rparr>"

definition ex_mvm :: "McVer \<Rightarrow> ModVerMatch" where
  "ex_mvm mc = \<lparr>ModVerMatch.ver = VerMatch_ANY, loader = Some FORGE,
     mcver = \<lparr>McVerMatch.ver = Some mc, McVerMatch.operator = []\<rparr>,
     mcver_fallback = Some \<lparr>McVerMatch.ver = Some mc, McVerMatch.operator = ''^''\<rparr>,
     ver_str_match = None\<rparr>"

definition ex_pair :: "ModVer \<Rightarrow> ModVerPair" where
  "ex_pair v = \<lparr>ModVerPair.ver = v, info = None\<rparr>"

definition ex_backend :: "(error + ModDesc) \<Rightarrow> (error + ModVer list \<times> (string \<rightharpoonup> ModVerInfo) option) \<Rightarrow> Backend" where
  "ex_backend r1 r2 = \<lparr>get_moddesc = (\<lambda>t n. r1), fetch_versions = (\<lambda>d. r2)\<rparr>"

definition ex_world :: "datetime \<Rightarrow> int \<Rightarrow> Backend \<Rightarrow> world" where
  "ex_world t r b = \<lparr>now = t, drawn = r, files = Map.empty, backends = [MODRINTH \<mapsto> b]\<rparr>"

definition ex_state :: "ModInfo \<Rightarrow> state" where
  "ex_state i = \<lparr>cache = [(''by_name'', MODRINTH, ''lithium'') \<mapsto> Info 0],
                  objs = (\<lambda>r. \<lparr>obj_checked = checked i, obj_mod_desc = mod_desc i,
                                obj_versions = 1, obj_version_info = 2\<rparr>),
                  lists = (\<lambda>r. versions i), dicts = (\<lambda>r. version_info i),
                  next_ref = 3\<rparr>"


section \<open>Properties of the version model\<close>

lemma lt_loop_int_prefix:
  "lt_loop (map TInt p @ xs) (map TInt p @ ys) = lt_loop xs ys"
  by (induction p) simp_all

lemma lt_loop_ints_refl: "lt_loop (map TInt p) (map TInt p) = None"
  using lt_loop_int_prefix [of p "[]" "[]"] by simp

lemma Ver_repr_nonempty: "Ver_repr v \<noteq> []"
  by (simp add: Ver_repr_def)

lemma lt_loop_longer: "ys \<noteq> [] \<Longrightarrow> lt_loop ys [] = Some True"
  by (cases ys) simp_all

lemma lt_loop_shorter: "ys \<noteq> [] \<Longrightarrow> lt_loop [] ys = Some False"
  by (cases ys) simp_all

text \<open>
  Two equal versions made of integer tokens only: the loop of \<^verbatim>\<open>__lt__\<close> runs to
  its end and the method returns the \<^verbatim>\<open>repr\<close> string, which is truthy.
\<close>

lemma Ver_lt_equal_ints:
  "truthy (Ver_lt \<lparr>Ver.version = map TInt p, Ver.type = t\<rparr>
                  \<lparr>Ver.version = map TInt p, Ver.type = t\<rparr>)"
  by (simp add: Ver_lt_def lt_loop_ints_refl Ver_repr_nonempty)

text \<open>
  Claim C1: two \<^verbatim>\<open>Ver\<close> values with equal token tuples and equal maturity compare
  equal, and neither is \<^verbatim>\<open><\<close> the other. The code does not do this: for
  \<^verbatim>\<open>v = Ver((1,), VerType.RELEASE)\<close> the values are \<^verbatim>\<open>==\<close>, and
  \<^verbatim>\<open>v < v\<close> returns the string \<^verbatim>\<open>'Ver((1,))'\<close>, which is truthy.
\<close>

theorem Ver_lt_equal_versions_truthy:
  "Ver_eq \<lparr>Ver.version = [TInt 1], Ver.type = RELEASE\<rparr>
          \<lparr>Ver.version = [TInt 1], Ver.type = RELEASE\<rparr>
   \<and> Ver_lt \<lparr>Ver.version = [TInt 1], Ver.type = RELEASE\<rparr>
            \<lparr>Ver.version = [TInt 1], Ver.type = RELEASE\<rparr> = PStr ''Ver((1,))''
   \<and> truthy (Ver_lt \<lparr>Ver.version = [TInt 1], Ver.type = RELEASE\<rparr>
                    \<lparr>Ver.version = [TInt 1], Ver.type = RELEASE\<rparr>)"
  by (simp add: Ver_eq_def Ver_lt_def Ver_repr_def str_int_def str_nat.simps)

text \<open>
  Claim C3, as stated, at the versions 1.2 and 1.2.3: the claim has the shorter tuple
  sort lowest; in the code \<^verbatim>\<open>Ver((1,2,3)) < Ver((1,2))\<close> is true and
  \<^verbatim>\<open>Ver((1,2)) < Ver((1,2,3))\<close> is false.
\<close>

theorem Ver_shorter_not_lowest:
  "Ver_lt \<lparr>Ver.version = [TInt 1, TInt 2, TInt 3], Ver.type = RELEASE\<rparr>
          \<lparr>Ver.version = [TInt 1, TInt 2], Ver.type = RELEASE\<rparr> = PBool True
   \<and> Ver_lt \<lparr>Ver.version = [TInt 1, TInt 2], Ver.type = RELEASE\<rparr>
            \<lparr>Ver.version = [TInt 1, TInt 2, TInt 3], Ver.type = RELEASE\<rparr> = PBool False"
  by (simp add: Ver_lt_def)

text \<open>
  Claim C3, amended: \<^verbatim>\<open>Ver.__lt__\<close> is decided at the first position that is not a
  pair of equal integers, whatever the two maturities. After a common prefix \<open>p\<close> of
  integer tokens: when one tuple ends there, the longer one sorts lowest; two different
  integers compare as numbers; an \<^verbatim>\<open>'a'\<close> or \<^verbatim>\<open>'b'\<close> token sorts below an
  integer token; any other string against an integer, and two different strings, compare
  as \<^verbatim>\<open>str(lhs) < str(rhs)\<close>.
\<close>

theorem Ver_lt_componentwise:
  "(ys \<noteq> [] \<longrightarrow>
      Ver_lt \<lparr>Ver.version = map TInt p @ ys, Ver.type = t1\<rparr>
             \<lparr>Ver.version = map TInt p, Ver.type = t2\<rparr> = PBool True
    \<and> Ver_lt \<lparr>Ver.version = map TInt p, Ver.type = t1\<rparr>
             \<lparr>Ver.version = map TInt p @ ys, Ver.type = t2\<rparr> = PBool False)
   \<and> (a \<noteq> b \<longrightarrow>
      Ver_lt \<lparr>Ver.version = map TInt p @ TInt a # xs, Ver.type = t1\<rparr>
             \<lparr>Ver.version = map TInt p @ TInt b # zs, Ver.type = t2\<rparr> = PBool (a < b))
   \<and> (s = ''a'' \<or> s = ''b'' \<longrightarrow>
      Ver_lt \<lparr>Ver.version = map TInt p @ TStr s # xs, Ver.type = t1\<rparr>
             \<lparr>Ver.version = map TInt p @ TInt n # zs, Ver.type = t2\<rparr> = PBool True
    \<and> Ver_lt \<lparr>Ver.version = map TInt p @ TInt n # zs, Ver.type = t1\<rparr>
             \<lparr>Ver.version = map TInt p @ TStr s # xs, Ver.type = t2\<rparr> = PBool False)
   \<and> (w \<noteq> ''a'' \<and> w \<noteq> ''b'' \<longrightarrow>
      Ver_lt \<lparr>Ver.version = map TInt p @ TStr w # xs, Ver.type = t1\<rparr>
             \<lparr>Ver.version = map TInt p @ TInt n # zs, Ver.type = t2\<rparr>
        = PBool (py_str_lt w (str_int n))
    \<and> Ver_lt \<lparr>Ver.version = map TInt p @ TInt n # zs, Ver.type = t1\<rparr>
             \<lparr>Ver.version = map TInt p @ TStr w # xs, Ver.type = t2\<rparr>
        = PBool (py_str_lt (str_int n) w))
   \<and> (u \<noteq> v \<longrightarrow>
      Ver_lt \<lparr>Ver.version = map TInt p @ TStr u # xs, Ver.type = t1\<rparr>
             \<lparr>Ver.version = map TInt p @ TStr v # zs, Ver.type = t2\<rparr> = PBool (py_str_lt u v))"
  using lt_loop_int_prefix [of p ys "[]"] lt_loop_int_prefix [of p "[]" ys]
  by (auto simp add: Ver_lt_def lt_loop_int_prefix lt_loop_longer lt_loop_shorter)

theorem Ver_lt_componentwise_witness:
  "Ver_lt \<lparr>Ver.version = [TInt 1, TInt 2, TInt 3], Ver.type = RELEASE\<rparr>
          \<lparr>Ver.version = [TInt 1, TInt 2], Ver.type = BETA\<rparr> = PBool True
   \<and> Ver_lt \<lparr>Ver.version = [TInt 1, TInt 2], Ver.type = RELEASE\<rparr>
          \<lparr>Ver.version = [TInt 1, TInt 2, TInt 3], Ver.type = BETA\<rparr> = PBool False
   \<and> Ver_lt \<lparr>Ver.version = [TInt 1, TInt 2, TInt 9, TInt 4], Ver.type = RELEASE\<rparr>
          \<lparr>Ver.version = [TInt 1, TInt 2, TInt 10], Ver.type = BETA\<rparr> = PBool True
   \<and> Ver_lt \<lparr>Ver.version = [TInt 1, TInt 2, TStr ''b'', TInt 4], Ver.type = RELEASE\<rparr>
          \<lparr>Ver.version = [TInt 1, TInt 2, TInt 0], Ver.type = BETA\<rparr> = PBool True
   \<and> Ver_lt \<lparr>Ver.version = [TInt 1, TInt 2, TInt 0], Ver.type = RELEASE\<rparr>
          \<lparr>Ver.version = [TInt 1, TInt 2, TStr ''b'', TInt 4], Ver.type = BETA\<rparr> = PBool False
   \<and> Ver_lt \<lparr>Ver.version = [TInt 1, TInt 2, TStr ''rc'', TInt 4], Ver.type = RELEASE\<rparr>
          \<lparr>Ver.version = [TInt 1, TInt 2, TInt 0], Ver.type = BETA\<rparr> = PBool False
   \<and> Ver_lt \<lparr>Ver.version = [TInt 1, TInt 2, TInt 0], Ver.type = RELEASE\<rparr>
          \<lparr>Ver.version = [TInt 1, TInt 2, TStr ''rc'', TInt 4], Ver.type = BETA\<rparr> = PBool True
   \<and> Ver_lt \<lparr>Ver.version = [TInt 1, TInt 2, TStr ''hotfix'', TInt 4], Ver.type = RELEASE\<rparr>
          \<lparr>Ver.version = [TInt 1, TInt 2, TStr ''rc''], Ver.type = BETA\<rparr> = PBool True"
  using Ver_lt_componentwise [where p = "[1, 2]" and ys = "[TInt 3]" and ?t1.0 = RELEASE
      and ?t2.0 = BETA and a = 9 and b = 10 and xs = "[TInt 4]" and zs = "[]" and s = "''b''"
      and n = 0 and w = "''rc''" and u = "''hotfix''" and v = "''rc''"]
  by (simp add: str_int_def str_nat.simps)

text \<open>
  Claim C2, as stated, at \<^verbatim>\<open>^1.18.0\<close> and 1.18.2: the claim has the match accept
  1.18.2; the code evaluates \<^verbatim>\<open>self.ver >= other\<close> with the base on the left and
  rejects it. \<^verbatim>\<open>^1.18.0\<close> is the match \<^verbatim>\<open>McVerMatch(McVer(1, 18, 0), '^')\<close>
  that \<^verbatim>\<open>McVerMatch.deserialize\<close> builds from that string.
\<close>

theorem McVerMatch_caret_rejects_newer_patch:
  "McVerMatch_call \<lparr>McVerMatch.ver = Some (McVer3 1 18 0), McVerMatch.operator = ''^''\<rparr>
                   (McVer3 1 18 2) = Inr False"
  by (simp add: McVerMatch_call_def McVer_ge_def McVer_lt_def cmp_def McVer3_def)

text \<open>
  Claim C2, amended: with the \<^verbatim>\<open>^\<close> operator over a base version the match
  accepts exactly the versions with the major and minor of the base that the base is
  \<^verbatim>\<open>>=\<close> to (the base is not below them). \<^verbatim>\<open>^1.18.0\<close> accepts 1.18.0 and
  rejects 1.18.2, 1.19.0 and 1.17.3; \<^verbatim>\<open>^1.18.2\<close> accepts 1.18.0.
\<close>

theorem McVerMatch_caret:
  "McVerMatch_call \<lparr>McVerMatch.ver = Some b, McVerMatch.operator = ''^''\<rparr> v
     = Inr (major v = major b \<and> minor v = minor b \<and> McVer_ge b v)
   \<and> McVerMatch_call \<lparr>McVerMatch.ver = Some (McVer3 1 18 0), McVerMatch.operator = ''^''\<rparr>
        (McVer3 1 18 0) = Inr True
   \<and> McVerMatch_call \<lparr>McVerMatch.ver = Some (McVer3 1 18 0), McVerMatch.operator = ''^''\<rparr>
        (McVer3 1 18 2) = Inr False
   \<and> McVerMatch_call \<lparr>McVerMatch.ver = Some (McVer3 1 18 0), McVerMatch.operator = ''^''\<rparr>
        (McVer3 1 19 0) = Inr False
   \<and> McVerMatch_call \<lparr>McVerMatch.ver = Some (McVer3 1 18 0), McVerMatch.operator = ''^''\<rparr>
        (McVer3 1 17 3) = Inr False
   \<and> McVerMatch_call \<lparr>McVerMatch.ver = Some (McVer3 1 18 2), McVerMatch.operator = ''^''\<rparr>
        (McVer3 1 18 0) = Inr True"
  by (auto simp add: McVerMatch_call_def McVer_ge_def McVer_lt_def cmp_def McVer3_def)


section \<open>Properties of version acceptance and selection\<close>

lemmas ex_defs = ex_desc_def ex_modver_def ex_info_def ex_mvm_def ex_pair_def McVer3_def

lemmas test_defs = test_def test_no_fallback_def test_fallback_def loader_rejects_def
  ver_str_rejects_def VerMatch_call_def VerMatch_ANY_def ModVer_version_def
  McVerMatch_call_def McVerMatch_bool_def McVer_eq_def McVer_ge_def McVer_lt_def cmp_def
  RESULT_FAIL_def RESULT_FALLBACK_def RESULT_SUCCESS_def

lemmas sort_defs = sorted_reverse_def sort_lt_def ModVer_less_def ModVer_lt_def Ver_eq_def
  Ver_lt_def published_less_def

text \<open>
  Claim C9: when the match names a loader and the version declares no loaders, the loader
  criterion does not reject, and \<^verbatim>\<open>ModVerMatch.test\<close> returns what it returns for
  the same match without a loader.
\<close>

theorem loader_criterion_empty_loaders:
  "loader m = Some l \<Longrightarrow> loaders v = {} \<Longrightarrow>
     \<not> loader_rejects (loader m) (loaders v) \<and> test m v fb = test (m\<lparr>loader := None\<rparr>) v fb"
  by (simp add: test_def loader_rejects_def split: sum.splits)

theorem loader_criterion_empty_loaders_witness:
  "loader (ex_mvm (McVer3 1 19 3)) = Some FORGE
   \<and> loaders (ex_modver ''1.0'' [TInt 1, TInt 0] 5 [McVer3 1 19 3]) = {}
   \<and> test (ex_mvm (McVer3 1 19 3)) (ex_modver ''1.0'' [TInt 1, TInt 0] 5 [McVer3 1 19 3]) True
       = Inr RESULT_SUCCESS
   \<and> test ((ex_mvm (McVer3 1 19 3))\<lparr>loader := None\<rparr>)
            (ex_modver ''1.0'' [TInt 1, TInt 0] 5 [McVer3 1 19 3]) True
       = Inr RESULT_SUCCESS"
proof -
  have l: "loader (ex_mvm (McVer3 1 19 3)) = Some FORGE" by (simp add: ex_mvm_def)
  have e: "loaders (ex_modver ''1.0'' [TInt 1, TInt 0] 5 [McVer3 1 19 3]) = {}"
    by (simp add: ex_modver_def)
  have t: "test (ex_mvm (McVer3 1 19 3)) (ex_modver ''1.0'' [TInt 1, TInt 0] 5 [McVer3 1 19 3]) True
       = Inr RESULT_SUCCESS"
    by (simp add: ex_defs test_defs)
  show ?thesis
    using loader_criterion_empty_loaders [OF l e, of True] l e t by simp
qed

text \<open>
  \<open>mcversions\<close> is a \<^verbatim>\<open>frozenset\<close>; what \<^verbatim>\<open>any(map(self.mcver, v.mcversions))\<close>
  returns or raises does not depend on the order in which its elements are iterated.
\<close>

lemma any_map_no_raise:
  "(\<forall>x \<in> set xs. \<exists>b. f x = Inr b) \<Longrightarrow> any_map f xs = Inr (\<exists>x \<in> set xs. f x = Inr True)"
  by (induction xs) auto

lemma any_map_all_raise:
  "(\<forall>x \<in> set xs. f x = Inl e) \<Longrightarrow> any_map f xs = (if xs = [] then Inr False else Inl e)"
  by (cases xs) auto

lemma McVerMatch_call_cases:
  "(\<forall>v. \<exists>b. McVerMatch_call m v = Inr b) \<or> (\<forall>v. McVerMatch_call m v = Inl UnknownOperator)"
  by (auto simp add: McVerMatch_call_def split: option.splits)

lemma any_map_McVerMatch_order:
  assumes "set xs = set ys"
  shows "any_map (McVerMatch_call m) xs = any_map (McVerMatch_call m) ys"
proof -
  consider (ok) "\<forall>v. \<exists>b. McVerMatch_call m v = Inr b"
    | (raise) "\<forall>v. McVerMatch_call m v = Inl UnknownOperator"
    using McVerMatch_call_cases by blast
  then show ?thesis
  proof cases
    case ok
    then show ?thesis
      using any_map_no_raise [of xs "McVerMatch_call m"] any_map_no_raise [of ys "McVerMatch_call m"] assms
      by simp
  next
    case raise
    have "xs = [] \<longleftrightarrow> ys = []" using assms by (metis set_empty)
    then show ?thesis
      using any_map_all_raise [of xs "McVerMatch_call m" UnknownOperator]
        any_map_all_raise [of ys "McVerMatch_call m" UnknownOperator] raise
      by simp
  qed
qed


subsection \<open>The sort\<close>

lemma set_insert_lt [simp]: "set (insert_lt lt x ys) = insert x (set ys)"
  by (induction ys) auto

lemma mset_insert_lt [simp]: "mset (insert_lt lt x ys) = add_mset x (mset ys)"
  by (induction ys) auto

















subsection \<open>The selection and the warning of find_version\<close>






text \<open>
  The other direction: version 2.0 exists for another game version only and is above the
  selected 1.0; the code does not warn.
\<close>

lemma find_version_silent_on_newer_unmatched:
  "truthy (Ver_gt (ModVer_version (ex_modver ''2.0'' [TInt 2, TInt 0] 9 [McVer3 1 20 0]))
                  (ModVer_version (ex_modver ''1.0'' [TInt 1, TInt 0] 5 [McVer3 1 19 3])))
   \<and> get_latest_version sort_lt
        (ex_info 0 [ex_modver ''2.0'' [TInt 2, TInt 0] 9 [McVer3 1 20 0],
                    ex_modver ''1.0'' [TInt 1, TInt 0] 5 [McVer3 1 19 3]])
        (ex_mvm (McVer3 1 19 3))
     = Inr (Some (ex_modver ''1.0'' [TInt 1, TInt 0] 5 [McVer3 1 19 3]))
   \<and> snd (find_version sort_lt
            (Inr (ex_info 0 [ex_modver ''2.0'' [TInt 2, TInt 0] 9 [McVer3 1 20 0],
                             ex_modver ''1.0'' [TInt 1, TInt 0] 5 [McVer3 1 19 3]]))
            (\<lambda>i v. Inr (ex_pair v)) ''lithium'' (ex_mvm (McVer3 1 19 3)) Map.empty)
     = Map.empty"
proof -
  have gv: "get_versions sort_lt
              (ex_info 0 [ex_modver ''2.0'' [TInt 2, TInt 0] 9 [McVer3 1 20 0],
                          ex_modver ''1.0'' [TInt 1, TInt 0] 5 [McVer3 1 19 3]])
              (ex_mvm (McVer3 1 19 3))
     = Inr [ex_modver ''1.0'' [TInt 1, TInt 0] 5 [McVer3 1 19 3]]"
    by (simp add: get_versions_def ex_defs test_defs sort_defs)
  show ?thesis
    apply (simp add: get_latest_version_def find_version_def gv)
    apply (simp add: ex_defs sort_defs Ver_gt_def ModVer_version_def)
    done
qed





lemma ex2_fallback:
  "test (ex_mvm (McVer3 1 19 3)) (ex_modver ''1.0'' [TInt 1, TInt 0] 5 [McVer3 1 19 2]) True
     = Inr RESULT_FALLBACK"
  by (simp add: ex_defs test_defs)







lemma ex4_strict_weak:
  "strict_weak ModVer_less
     (set [ex_modver ''1.0'' [TInt 1, TInt 0] 5 [McVer3 1 19 2],
           ex_modver ''1.1'' [TInt 1, TInt 1] 6 [McVer3 1 19 2]])"
  by (simp add: strict_weak_def ModVer_less_def ModVer_lt_def Ver_eq_def Ver_lt_def
      ModVer_version_def ex_modver_def)





section \<open>Properties of the merge of resolutions\<close>

text \<open>
  Claim C5, as stated, at a resolution with one dependent merged with itself: the claim
  has the merge change nothing; the code concatenates the two dependent lists, so the
  result lists the dependent twice and differs from the operand.
\<close>

theorem ResolvedMod_and_not_idempotent:
  "ResolvedMod_and
     (ResolvedMod 0 (ex_pair (ex_modver ''1.0'' [TInt 1, TInt 0] 5 [McVer3 1 19 2])) MODRINTH None
        [ResolvedMod 1 (ex_pair (ex_modver ''3.1'' [TInt 3, TInt 1] 7 [McVer3 1 19 2])) MODRINTH None []])
     (ResolvedMod 0 (ex_pair (ex_modver ''1.0'' [TInt 1, TInt 0] 5 [McVer3 1 19 2])) MODRINTH None
        [ResolvedMod 1 (ex_pair (ex_modver ''3.1'' [TInt 3, TInt 1] 7 [McVer3 1 19 2])) MODRINTH None []])
   = Inr (ResolvedMod 0 (ex_pair (ex_modver ''1.0'' [TInt 1, TInt 0] 5 [McVer3 1 19 2])) MODRINTH None
        [ResolvedMod 1 (ex_pair (ex_modver ''3.1'' [TInt 3, TInt 1] 7 [McVer3 1 19 2])) MODRINTH None [],
         ResolvedMod 1 (ex_pair (ex_modver ''3.1'' [TInt 3, TInt 1] 7 [McVer3 1 19 2])) MODRINTH None []])
   \<and> ResolvedMod_and
     (ResolvedMod 0 (ex_pair (ex_modver ''1.0'' [TInt 1, TInt 0] 5 [McVer3 1 19 2])) MODRINTH None
        [ResolvedMod 1 (ex_pair (ex_modver ''3.1'' [TInt 3, TInt 1] 7 [McVer3 1 19 2])) MODRINTH None []])
     (ResolvedMod 0 (ex_pair (ex_modver ''1.0'' [TInt 1, TInt 0] 5 [McVer3 1 19 2])) MODRINTH None
        [ResolvedMod 1 (ex_pair (ex_modver ''3.1'' [TInt 3, TInt 1] 7 [McVer3 1 19 2])) MODRINTH None []])
   \<noteq> Inr (ResolvedMod 0 (ex_pair (ex_modver ''1.0'' [TInt 1, TInt 0] 5 [McVer3 1 19 2])) MODRINTH None
        [ResolvedMod 1 (ex_pair (ex_modver ''3.1'' [TInt 3, TInt 1] 7 [McVer3 1 19 2])) MODRINTH None []])"
  by (simp add: ResolvedMod_and_def)

text \<open>
  Claim C5, amended: the merge of two resolutions of the same mod object keeps that mod,
  keeps the version of the left operand unless \<^verbatim>\<open>self.ver.version < other.ver.version\<close>
  is truthy (then the right one's), the left manifest entry if it is not null and else the
  right one, and the dependents of the left followed by those of the right. As a set the
  dependents of the merge are the union of the two operands' dependents, the same in either
  merge order; merging a resolution with itself keeps its mod, version, source, manifest
  entry and set of dependents, and repeats its list of dependents.
\<close>

theorem ResolvedMod_and_merge:
  assumes "mod' a = mod' b"
  shows "(\<exists>r1 r2. ResolvedMod_and a b = Inr r1 \<and> ResolvedMod_and b a = Inr r2
            \<and> mod' r1 = mod' a \<and> mod' r2 = mod' a
            \<and> ResolvedMod.ver r1 = (if truthy (Ver_lt (ModVerPair_version (ResolvedMod.ver a))
                                                       (ModVerPair_version (ResolvedMod.ver b)))
                                     then ResolvedMod.ver b else ResolvedMod.ver a)
            \<and> conf r1 = (if conf a \<noteq> None then conf a else conf b)
            \<and> dependents r1 = dependents a @ dependents b
            \<and> set (dependents r1) = set (dependents a) \<union> set (dependents b)
            \<and> set (dependents r2) = set (dependents r1))
         \<and> (\<exists>r. ResolvedMod_and a a = Inr r \<and> mod' r = mod' a
               \<and> ResolvedMod.ver r = ResolvedMod.ver a \<and> source r = source a
               \<and> conf r = conf a \<and> dependents r = dependents a @ dependents a
               \<and> set (dependents r) = set (dependents a))"
  using assms by (auto simp add: ResolvedMod_and_def Ver_ge_def split: option.splits)

theorem ResolvedMod_and_merge_witness:
  "ResolvedMod_and
     (ResolvedMod 0 (ex_pair (ex_modver ''1.0'' [TInt 1, TInt 0] 5 [McVer3 1 19 2])) MODRINTH None
        [ResolvedMod 1 (ex_pair (ex_modver ''3.1'' [TInt 3, TInt 1] 7 [McVer3 1 19 2])) MODRINTH None []])
     (ResolvedMod 0 (ex_pair (ex_modver ''1.1'' [TInt 1, TInt 1] 6 [McVer3 1 19 2])) MODRINTH None
        [ResolvedMod 2 (ex_pair (ex_modver ''0.4'' [TInt 0, TInt 4] 8 [McVer3 1 19 2])) MODRINTH None []])
   = Inr (ResolvedMod 0 (ex_pair (ex_modver ''1.1'' [TInt 1, TInt 1] 6 [McVer3 1 19 2])) MODRINTH None
        [ResolvedMod 1 (ex_pair (ex_modver ''3.1'' [TInt 3, TInt 1] 7 [McVer3 1 19 2])) MODRINTH None [],
         ResolvedMod 2 (ex_pair (ex_modver ''0.4'' [TInt 0, TInt 4] 8 [McVer3 1 19 2])) MODRINTH None []])
   \<and> ResolvedMod_and
     (ResolvedMod 0 (ex_pair (ex_modver ''1.1'' [TInt 1, TInt 1] 6 [McVer3 1 19 2])) MODRINTH None
        [ResolvedMod 2 (ex_pair (ex_modver ''0.4'' [TInt 0, TInt 4] 8 [McVer3 1 19 2])) MODRINTH None []])
     (ResolvedMod 0 (ex_pair (ex_modver ''1.0'' [TInt 1, TInt 0] 5 [McVer3 1 19 2])) MODRINTH None
        [ResolvedMod 1 (ex_pair (ex_modver ''3.1'' [TInt 3, TInt 1] 7 [McVer3 1 19 2])) MODRINTH None []])
   = Inr (ResolvedMod 0 (ex_pair (ex_modver ''1.1'' [TInt 1, TInt 1] 6 [McVer3 1 19 2])) MODRINTH None
        [ResolvedMod 2 (ex_pair (ex_modver ''0.4'' [TInt 0, TInt 4] 8 [McVer3 1 19 2])) MODRINTH None [],
         ResolvedMod 1 (ex_pair (ex_modver ''3.1'' [TInt 3, TInt 1] 7 [McVer3 1 19 2])) MODRINTH None []])"
  using ResolvedMod_and_merge
     [where a = "ResolvedMod 0 (ex_pair (ex_modver ''1.0'' [TInt 1, TInt 0] 5 [McVer3 1 19 2])) MODRINTH None
        [ResolvedMod 1 (ex_pair (ex_modver ''3.1'' [TInt 3, TInt 1] 7 [McVer3 1 19 2])) MODRINTH None []]"
      and b = "ResolvedMod 0 (ex_pair (ex_modver ''1.1'' [TInt 1, TInt 1] 6 [McVer3 1 19 2])) MODRINTH None
        [ResolvedMod 2 (ex_pair (ex_modver ''0.4'' [TInt 0, TInt 4] 8 [McVer3 1 19 2])) MODRINTH None []]"]
  by (simp add: ResolvedMod_and_def Ver_ge_def Ver_lt_def ModVerPair_version_def ModVer_version_def
      ex_pair_def ex_modver_def)


text \<open>
  Claim C10: \<^verbatim>\<open>ResolvedMod.__and__\<close> raises exactly when the two \<^verbatim>\<open>mod\<close> fields
  are not the same object, and then it raises \<^verbatim>\<open>ValueError\<close>; when they are the same
  object it returns the merged \<^verbatim>\<open>ResolvedMod\<close>: that object, the version of the left
  operand unless \<^verbatim>\<open>self.ver.version < other.ver.version\<close> is truthy (then the right
  one's), the source of the left operand, the left manifest entry if it is not null and
  else the right one, and the dependents of the left followed by those of the right.
\<close>

theorem ResolvedMod_and_raises_iff:
  "((\<exists>e. ResolvedMod_and a b = Inl e) \<longleftrightarrow> mod' a \<noteq> mod' b)
   \<and> (mod' a \<noteq> mod' b \<longrightarrow> ResolvedMod_and a b = Inl ValueError)
   \<and> (mod' a = mod' b \<longrightarrow>
        ResolvedMod_and a b
          = Inr (ResolvedMod (mod' a)
                   (if truthy (Ver_lt (ModVerPair_version (ResolvedMod.ver a))
                                      (ModVerPair_version (ResolvedMod.ver b)))
                    then ResolvedMod.ver b else ResolvedMod.ver a)
                   (source a)
                   (if conf a = None then conf b else conf a)
                   (dependents a @ dependents b)))"
  by (auto simp add: ResolvedMod_and_def Ver_ge_def split: option.splits)

theorem ResolvedMod_and_raises_iff_witness:
  "ResolvedMod_and
     (ResolvedMod 0 (ex_pair (ex_modver ''1.0'' [TInt 1, TInt 0] 5 [McVer3 1 19 2])) MODRINTH None [])
     (ResolvedMod 1 (ex_pair (ex_modver ''1.0'' [TInt 1, TInt 0] 5 [McVer3 1 19 2])) MODRINTH None [])
     = Inl ValueError
   \<and> ResolvedMod_and
     (ResolvedMod 0 (ex_pair (ex_modver ''1.0'' [TInt 1, TInt 0] 5 [McVer3 1 19 2])) MODRINTH None
        [ResolvedMod 1 (ex_pair (ex_modver ''3.1'' [TInt 3, TInt 1] 7 [McVer3 1 19 2])) MODRINTH None []])
     (ResolvedMod 0 (ex_pair (ex_modver ''1.1'' [TInt 1, TInt 1] 6 [McVer3 1 19 2])) CURSEFORGE
        (Some \<lparr>ModConf.name = ''lithium'', ModConf.version = VerMatch_ANY\<rparr>)
        [ResolvedMod 2 (ex_pair (ex_modver ''0.4'' [TInt 0, TInt 4] 8 [McVer3 1 19 2])) MODRINTH None []])
     = Inr (ResolvedMod 0 (ex_pair (ex_modver ''1.1'' [TInt 1, TInt 1] 6 [McVer3 1 19 2])) MODRINTH
        (Some \<lparr>ModConf.name = ''lithium'', ModConf.version = VerMatch_ANY\<rparr>)
        [ResolvedMod 1 (ex_pair (ex_modver ''3.1'' [TInt 3, TInt 1] 7 [McVer3 1 19 2])) MODRINTH None [],
         ResolvedMod 2 (ex_pair (ex_modver ''0.4'' [TInt 0, TInt 4] 8 [McVer3 1 19 2])) MODRINTH None []])"
  using ResolvedMod_and_raises_iff
     [where a = "ResolvedMod 0 (ex_pair (ex_modver ''1.0'' [TInt 1, TInt 0] 5 [McVer3 1 19 2])) MODRINTH None []"
        and b = "ResolvedMod 1 (ex_pair (ex_modver ''1.0'' [TInt 1, TInt 0] 5 [McVer3 1 19 2])) MODRINTH None []"]
    ResolvedMod_and_raises_iff
     [where a = "ResolvedMod 0 (ex_pair (ex_modver ''1.0'' [TInt 1, TInt 0] 5 [McVer3 1 19 2])) MODRINTH None
        [ResolvedMod 1 (ex_pair (ex_modver ''3.1'' [TInt 3, TInt 1] 7 [McVer3 1 19 2])) MODRINTH None []]"
        and b = "ResolvedMod 0 (ex_pair (ex_modver ''1.1'' [TInt 1, TInt 1] 6 [McVer3 1 19 2])) CURSEFORGE
        (Some \<lparr>ModConf.name = ''lithium'', ModConf.version = VerMatch_ANY\<rparr>)
        [ResolvedMod 2 (ex_pair (ex_modver ''0.4'' [TInt 0, TInt 4] 8 [McVer3 1 19 2])) MODRINTH None []]"]
  by (simp add: Ver_lt_def ModVerPair_version_def ModVer_version_def ex_pair_def ex_modver_def
      ex_state_def)



section \<open>Properties of the info manager\<close>


lemma read_info_simps [simp]:
  "checked (read_info st r) = obj_checked (objs st r)"
  "mod_desc (read_info st r) = obj_mod_desc (objs st r)"
  "versions (read_info st r) = lists st (obj_versions (objs st r))"
  "version_info (read_info st r) = dicts st (obj_version_info (objs st r))"
  by (simp_all add: read_info_def)








text \<open>
  The object \<^verbatim>\<open>get_modinfo\<close> builds and stores when the paths of the descriptor are
  valid: it is new, and it reads as the constructor's arguments with the list sorted.
\<close>

lemma store_new_valid:
  assumes "path_by src (ModDesc.id' d) = None" and "path_by src (ModDesc.name d) = None"
  shows "\<exists>st2. store_new srt st src c d lr dr = (Inr (next_ref st), st2)
               \<and> read_info st2 (next_ref st)
                   = \<lparr>checked = c, mod_desc = d,
                      versions = sorted_reverse srt ModVer_less (lists st lr),
                      version_info = dicts st dr\<rparr>
               \<and> obj_versions (objs st2 (next_ref st)) = lr
               \<and> obj_version_info (objs st2 (next_ref st)) = dr
               \<and> cache st2 (''by_name'', src, ModDesc.name d) = Some (Info (next_ref st))"
  using assms
  by (simp add: store_new_def cache_set_def ModInfo_init_def new_object_def read_info_def Let_def)


text \<open>
  Claim C7: for every recheck interval drawn from the window of 6 to 10 hours,
  \<^verbatim>\<open>get_modinfo\<close> on a cached \<^verbatim>\<open>ModInfo\<close> whose age is below 6 hours returns the
  cached object, leaves the state as the cache read left it and makes no backend call. On
  one whose age is at least 10 hours, for a source with a backend, it revalidates: the
  first backend call is the descriptor fetch, and the outcome is made of what the backend
  answers. If the descriptor fetch raises, so does the call. If it returns a descriptor
  with the cached \<^verbatim>\<open>updated\<close> time, the call returns a new object checked now, with
  that descriptor and the cached versions and details, stored under the descriptor's name,
  and makes no other call. If the descriptor has another \<^verbatim>\<open>updated\<close> time the version
  list is fetched as well: its failure is raised, and otherwise the new object has the
  fetched versions, sorted, and the cached details updated with the fetched ones.
\<close>

theorem get_modinfo_recheck_window:
  assumes "RECHECK_INTERVAL_MIN \<le> drawn w" and "drawn w < RECHECK_INTERVAL_MAX"
    and "get_by srt ''by_name'' (files w) st src nm = (Inr (Some r), st')"
  shows "(now w - checked (read_info st' r) < RECHECK_INTERVAL_MIN * 1000000 \<longrightarrow>
            get_modinfo srt w st src ty nm = (Inr r, st', []))
       \<and> (RECHECK_INTERVAL_MAX * 1000000 \<le> now w - checked (read_info st' r) \<longrightarrow>
          backends w src = Some b \<longrightarrow>
            (\<exists>res st'' rest. get_modinfo srt w st src ty nm
                               = (res, st'', GetModDesc src ty nm # rest))
          \<and> (get_moddesc b ty nm = Inl e \<longrightarrow>
               get_modinfo srt w st src ty nm = (Inl e, st', [GetModDesc src ty nm]))
          \<and> (get_moddesc b ty nm = Inr d \<longrightarrow>
               path_by src (ModDesc.id' d) = None \<longrightarrow> path_by src (ModDesc.name d) = None \<longrightarrow>
               updated (mod_desc (read_info st' r)) = updated d \<longrightarrow>
               (\<exists>st''. get_modinfo srt w st src ty nm
                         = (Inr (next_ref st'), st'', [GetModDesc src ty nm])
                  \<and> read_info st'' (next_ref st')
                      = \<lparr>checked = now w, mod_desc = d,
                         versions = sorted_reverse srt ModVer_less (versions (read_info st' r)),
                         version_info = version_info (read_info st' r)\<rparr>
                  \<and> cache st'' (''by_name'', src, ModDesc.name d) = Some (Info (next_ref st'))))
          \<and> (get_moddesc b ty nm = Inr d \<longrightarrow>
               updated (mod_desc (read_info st' r)) \<noteq> updated d \<longrightarrow>
               fetch_versions b d = Inl e \<longrightarrow>
               get_modinfo srt w st src ty nm
                 = (Inl e, st', [GetModDesc src ty nm, GetVersions src d]))
          \<and> (get_moddesc b ty nm = Inr d \<longrightarrow>
               path_by src (ModDesc.id' d) = None \<longrightarrow> path_by src (ModDesc.name d) = None \<longrightarrow>
               updated (mod_desc (read_info st' r)) \<noteq> updated d \<longrightarrow>
               fetch_versions b d = Inr (vs, nvi) \<longrightarrow>
               (\<exists>st''. get_modinfo srt w st src ty nm
                         = (Inr (Suc (next_ref st')), st'',
                            [GetModDesc src ty nm, GetVersions src d])
                  \<and> read_info st'' (Suc (next_ref st'))
                      = \<lparr>checked = now w, mod_desc = d,
                         versions = sorted_reverse srt ModVer_less vs,
                         version_info = merge_info (version_info (read_info st' r)) nvi\<rparr>
                  \<and> cache st'' (''by_name'', src, ModDesc.name d)
                      = Some (Info (Suc (next_ref st'))))))"
proof -
  have lo: "RECHECK_INTERVAL_MIN * 1000000 \<le> recheck_interval (drawn w)"
    using assms(1) by (simp add: recheck_interval_def)
  have hi: "recheck_interval (drawn w) < RECHECK_INTERVAL_MAX * 1000000"
    using assms(2) by (simp add: recheck_interval_def)
  have fresh: "get_modinfo srt w st src ty nm = (Inr r, st', [])"
    if "now w - checked (read_info st' r) < RECHECK_INTERVAL_MIN * 1000000"
    using that lo assms(3) by (simp add: get_modinfo_def)
  have stale: "get_modinfo srt w st src ty nm = revalidate srt w st' src ty nm (Some r)"
    if "RECHECK_INTERVAL_MAX * 1000000 \<le> now w - checked (read_info st' r)"
    using that hi assms(3) by (simp add: get_modinfo_def)
  have c0: "\<exists>res st'' rest. revalidate srt w st' src ty nm (Some r)
                               = (res, st'', GetModDesc src ty nm # rest)"
    if "backends w src = Some b"
    using that by (simp add: revalidate_def Let_def split: sum.splits prod.splits option.splits)
  have c1: "revalidate srt w st' src ty nm (Some r) = (Inl e, st', [GetModDesc src ty nm])"
    if "backends w src = Some b" "get_moddesc b ty nm = Inl e"
    using that by (simp add: revalidate_def)
  have c2: "\<exists>st''. revalidate srt w st' src ty nm (Some r)
                         = (Inr (next_ref st'), st'', [GetModDesc src ty nm])
                  \<and> read_info st'' (next_ref st')
                      = \<lparr>checked = now w, mod_desc = d,
                         versions = sorted_reverse srt ModVer_less (versions (read_info st' r)),
                         version_info = version_info (read_info st' r)\<rparr>
                  \<and> cache st'' (''by_name'', src, ModDesc.name d) = Some (Info (next_ref st'))"
    if h: "backends w src = Some b" "get_moddesc b ty nm = Inr d"
      "path_by src (ModDesc.id' d) = None" "path_by src (ModDesc.name d) = None"
      "updated (mod_desc (read_info st' r)) = updated d"
  proof -
    obtain st2 where s:
      "store_new srt st' src (now w) d (obj_versions (objs st' r)) (obj_version_info (objs st' r))
         = (Inr (next_ref st'), st2)"
      "read_info st2 (next_ref st')
         = \<lparr>checked = now w, mod_desc = d,
            versions = sorted_reverse srt ModVer_less (lists st' (obj_versions (objs st' r))),
            version_info = dicts st' (obj_version_info (objs st' r))\<rparr>"
      "cache st2 (''by_name'', src, ModDesc.name d) = Some (Info (next_ref st'))"
      using store_new_valid [OF h(3,4)] by blast
    show ?thesis
      using h(1,2,5) s by (simp add: revalidate_def)
  qed
  have c3: "revalidate srt w st' src ty nm (Some r)
              = (Inl e, st', [GetModDesc src ty nm, GetVersions src d])"
    if "backends w src = Some b" "get_moddesc b ty nm = Inr d"
      "updated (mod_desc (read_info st' r)) \<noteq> updated d" "fetch_versions b d = Inl e"
    using that by (simp add: revalidate_def)
  have c4: "\<exists>st''. revalidate srt w st' src ty nm (Some r)
                         = (Inr (Suc (next_ref st')), st'',
                            [GetModDesc src ty nm, GetVersions src d])
                  \<and> read_info st'' (Suc (next_ref st'))
                      = \<lparr>checked = now w, mod_desc = d,
                         versions = sorted_reverse srt ModVer_less vs,
                         version_info = merge_info (version_info (read_info st' r)) nvi\<rparr>
                  \<and> cache st'' (''by_name'', src, ModDesc.name d)
                      = Some (Info (Suc (next_ref st')))"
    if h: "backends w src = Some b" "get_moddesc b ty nm = Inr d"
      "path_by src (ModDesc.id' d) = None" "path_by src (ModDesc.name d) = None"
      "updated (mod_desc (read_info st' r)) \<noteq> updated d" "fetch_versions b d = Inr (vs, nvi)"
  proof -
    let ?dr = "obj_version_info (objs st' r)"
    let ?st3 = "snd (new_list (dict_update st' ?dr nvi) vs)"
    obtain st2 where s:
      "store_new srt ?st3 src (now w) d (next_ref st') ?dr = (Inr (next_ref ?st3), st2)"
      "read_info st2 (next_ref ?st3)
         = \<lparr>checked = now w, mod_desc = d,
            versions = sorted_reverse srt ModVer_less (lists ?st3 (next_ref st')),
            version_info = dicts ?st3 ?dr\<rparr>"
      "cache st2 (''by_name'', src, ModDesc.name d) = Some (Info (next_ref ?st3))"
      using store_new_valid [OF h(3,4)] by blast
    show ?thesis
      using h(1,2,5,6) s by (simp add: revalidate_def new_list_def dict_update_def)
  qed
  show ?thesis
    using fresh stale c0 c1 c2 c3 c4 by (intro conjI impI) simp_all
qed


text \<open>
  Four runs on a cached project checked at time 0, at the two ends of the window: at one
  microsecond less than 6 hours with the interval drawn at its minimum the cached object is
  returned; at 10 hours with the interval drawn at its maximum, the backend's failure is
  raised, an unchanged descriptor gives a new object with the backend's descriptor and the
  cached version, and a changed descriptor gives a new object with the backend's two
  versions sorted.
\<close>

theorem get_modinfo_recheck_window_witness:
  "RECHECK_INTERVAL_MIN \<le> 21600 \<and> 35999 < RECHECK_INTERVAL_MAX
   \<and> get_modinfo sort_lt
        (ex_world 21599999999 21600 (ex_backend (Inr (ex_desc\<lparr>updated := Some 2000\<rparr>)) (Inr ([], None))))
        (ex_state (ex_info 0 [])) MODRINTH MOD ''lithium''
     = (Inr 0, ex_state (ex_info 0 []), [])
   \<and> get_modinfo sort_lt
        (ex_world 36000000000 35999 (ex_backend (Inl (BackendError ''unreachable'')) (Inr ([], None))))
        (ex_state (ex_info 0 [])) MODRINTH MOD ''lithium''
     = (Inl (BackendError ''unreachable''), ex_state (ex_info 0 []),
        [GetModDesc MODRINTH MOD ''lithium''])
   \<and> (\<exists>st. get_modinfo sort_lt
        (ex_world 36000000000 35999 (ex_backend (Inr (ex_desc\<lparr>short_desc := Some ''faster''\<rparr>)) (Inr ([], None))))
        (ex_state (ex_info 0 [ex_modver ''1.0'' [TInt 1, TInt 0] 5 [McVer3 1 19 2]]))
        MODRINTH MOD ''lithium''
     = (Inr 3, st, [GetModDesc MODRINTH MOD ''lithium''])
     \<and> read_info st 3
         = \<lparr>checked = 36000000000, mod_desc = ex_desc\<lparr>short_desc := Some ''faster''\<rparr>,
            versions = [ex_modver ''1.0'' [TInt 1, TInt 0] 5 [McVer3 1 19 2]],
            version_info = Map.empty\<rparr>)
   \<and> (\<exists>st. get_modinfo sort_lt
        (ex_world 36000000000 35999
           (ex_backend (Inr (ex_desc\<lparr>updated := Some 2000\<rparr>))
              (Inr ([ex_modver ''1.0'' [TInt 1, TInt 0] 5 [McVer3 1 19 2],
                     ex_modver ''1.1'' [TInt 1, TInt 1] 6 [McVer3 1 19 2]], None))))
        (ex_state (ex_info 0 [])) MODRINTH MOD ''lithium''
     = (Inr 4, st, [GetModDesc MODRINTH MOD ''lithium'',
                    GetVersions MODRINTH (ex_desc\<lparr>updated := Some 2000\<rparr>)])
     \<and> read_info st 4
         = \<lparr>checked = 36000000000, mod_desc = ex_desc\<lparr>updated := Some 2000\<rparr>,
            versions = [ex_modver ''1.1'' [TInt 1, TInt 1] 6 [McVer3 1 19 2],
                        ex_modver ''1.0'' [TInt 1, TInt 0] 5 [McVer3 1 19 2]],
            version_info = Map.empty\<rparr>)"
proof -
  let ?c = "ex_modver ''1.0'' [TInt 1, TInt 0] 5 [McVer3 1 19 2]"
  let ?d = "ex_modver ''1.1'' [TInt 1, TInt 1] 6 [McVer3 1 19 2]"
  let ?d2 = "ex_desc\<lparr>updated := Some 2000\<rparr>"
  let ?d3 = "ex_desc\<lparr>short_desc := Some ''faster''\<rparr>"
  let ?e = "BackendError ''unreachable''"
  let ?b1 = "ex_backend (Inr ?d2) (Inr ([], None))"
  let ?b2 = "ex_backend (Inl ?e) (Inr ([], None))"
  let ?b3 = "ex_backend (Inr ?d3) (Inr ([], None))"
  let ?b4 = "ex_backend (Inr ?d2) (Inr ([?c, ?d], None))"
  let ?st = "ex_state (ex_info 0 [])"
  let ?st1 = "ex_state (ex_info 0 [?c])"
  have lo: "\<And>t x. RECHECK_INTERVAL_MIN \<le> drawn (ex_world t 21600 x)"
    by (simp add: ex_world_def RECHECK_INTERVAL_MIN_def)
  have hi: "\<And>t x. drawn (ex_world t 21600 x) < RECHECK_INTERVAL_MAX"
    by (simp add: ex_world_def RECHECK_INTERVAL_MAX_def)
  have lo': "\<And>t x. RECHECK_INTERVAL_MIN \<le> drawn (ex_world t 35999 x)"
    by (simp add: ex_world_def RECHECK_INTERVAL_MIN_def)
  have hi': "\<And>t x. drawn (ex_world t 35999 x) < RECHECK_INTERVAL_MAX"
    by (simp add: ex_world_def RECHECK_INTERVAL_MAX_def)
  have g: "\<And>t r x i. get_by sort_lt ''by_name'' (files (ex_world t r x)) (ex_state i) MODRINTH ''lithium''
             = (Inr (Some 0), ex_state i)"
    by (simp add: get_by_def entry_result_def ex_world_def ex_state_def)
  have b: "\<And>t r x. backends (ex_world t r x) MODRINTH = Some x"
    by (simp add: ex_world_def)
  have young: "\<And>r x. now (ex_world 21599999999 r x) - checked (read_info ?st 0)
                 < RECHECK_INTERVAL_MIN * 1000000"
    by (simp add: ex_world_def ex_info_def ex_state_def RECHECK_INTERVAL_MIN_def)
  have old: "\<And>r x i. RECHECK_INTERVAL_MAX * 1000000
                 \<le> now (ex_world 36000000000 r x) - checked (read_info (ex_state (ex_info 0 i)) 0)"
    by (simp add: ex_world_def ex_info_def ex_state_def RECHECK_INTERVAL_MAX_def)
  have pth: "path_by MODRINTH (ModDesc.id' ?d2) = None" "path_by MODRINTH (ModDesc.name ?d2) = None"
    "path_by MODRINTH (ModDesc.id' ?d3) = None" "path_by MODRINTH (ModDesc.name ?d3) = None"
    by (simp_all add: path_by_def ex_desc_def)
  have upd: "updated (mod_desc (read_info ?st1 0)) = updated ?d3"
    "updated (mod_desc (read_info ?st 0)) \<noteq> updated ?d2"
    by (simp_all add: ex_state_def ex_info_def ex_desc_def)
  have s1: "sorted_reverse sort_lt ModVer_less [?c] = [?c]"
    by (simp add: sort_defs)
  have s2: "sorted_reverse sort_lt ModVer_less [?c, ?d] = [?d, ?c]"
    by (simp add: sort_defs ModVer_version_def ex_modver_def)
  have rd: "versions (read_info ?st1 0) = [?c]" "version_info (read_info ?st1 0) = Map.empty"
    "version_info (read_info ?st 0) = Map.empty" "next_ref ?st = 3" "next_ref ?st1 = 3"
    by (simp_all add: ex_state_def ex_info_def)
  note t1 = get_modinfo_recheck_window
    [where srt = sort_lt and w = "ex_world 21599999999 21600 ?b1" and st = ?st and st' = ?st
       and src = MODRINTH and nm = "''lithium''" and r = 0 and ty = MOD, OF lo hi g]
  note t2 = get_modinfo_recheck_window
    [where srt = sort_lt and w = "ex_world 36000000000 35999 ?b2" and st = ?st and st' = ?st
       and src = MODRINTH and nm = "''lithium''" and r = 0 and ty = MOD and b = ?b2 and e = ?e,
     OF lo' hi' g]
  note t3 = get_modinfo_recheck_window
    [where srt = sort_lt and w = "ex_world 36000000000 35999 ?b3" and st = ?st1 and st' = ?st1
       and src = MODRINTH and nm = "''lithium''" and r = 0 and ty = MOD and b = ?b3 and d = ?d3,
     OF lo' hi' g]
  note t4 = get_modinfo_recheck_window
    [where srt = sort_lt and w = "ex_world 36000000000 35999 ?b4" and st = ?st and st' = ?st
       and src = MODRINTH and nm = "''lithium''" and r = 0 and ty = MOD and b = ?b4 and d = ?d2
       and vs = "[?c, ?d]" and nvi = None,
     OF lo' hi' g]
  have c1: "get_modinfo sort_lt (ex_world 21599999999 21600 ?b1) ?st MODRINTH MOD ''lithium''
              = (Inr 0, ?st, [])"
    using t1 young by simp
  have c2: "get_modinfo sort_lt (ex_world 36000000000 35999 ?b2) ?st MODRINTH MOD ''lithium''
              = (Inl ?e, ?st, [GetModDesc MODRINTH MOD ''lithium''])"
    using t2 old b by (simp add: ex_backend_def)
  have c3: "\<exists>st. get_modinfo sort_lt (ex_world 36000000000 35999 ?b3) ?st1 MODRINTH MOD ''lithium''
              = (Inr 3, st, [GetModDesc MODRINTH MOD ''lithium''])
            \<and> read_info st 3 = \<lparr>checked = 36000000000, mod_desc = ?d3, versions = [?c],
                                  version_info = Map.empty\<rparr>"
  proof -
    have "\<exists>st''. get_modinfo sort_lt (ex_world 36000000000 35999 ?b3) ?st1 MODRINTH MOD ''lithium''
              = (Inr (next_ref ?st1), st'', [GetModDesc MODRINTH MOD ''lithium''])
            \<and> read_info st'' (next_ref ?st1)
                = \<lparr>checked = now (ex_world 36000000000 35999 ?b3), mod_desc = ?d3,
                   versions = sorted_reverse sort_lt ModVer_less (versions (read_info ?st1 0)),
                   version_info = version_info (read_info ?st1 0)\<rparr>
            \<and> cache st'' (''by_name'', MODRINTH, ModDesc.name ?d3) = Some (Info (next_ref ?st1))"
      using t3 old b pth upd(1) by (simp add: ex_backend_def)
    then show ?thesis
      unfolding rd s1 by (auto simp add: ex_world_def)
  qed
  have c4: "\<exists>st. get_modinfo sort_lt (ex_world 36000000000 35999 ?b4) ?st MODRINTH MOD ''lithium''
              = (Inr 4, st, [GetModDesc MODRINTH MOD ''lithium'', GetVersions MODRINTH ?d2])
            \<and> read_info st 4 = \<lparr>checked = 36000000000, mod_desc = ?d2, versions = [?d, ?c],
                                  version_info = Map.empty\<rparr>"
  proof -
    have "\<exists>st''. get_modinfo sort_lt (ex_world 36000000000 35999 ?b4) ?st MODRINTH MOD ''lithium''
              = (Inr (Suc (next_ref ?st)), st'',
                 [GetModDesc MODRINTH MOD ''lithium'', GetVersions MODRINTH ?d2])
            \<and> read_info st'' (Suc (next_ref ?st))
                = \<lparr>checked = now (ex_world 36000000000 35999 ?b4), mod_desc = ?d2,
                   versions = sorted_reverse sort_lt ModVer_less [?c, ?d],
                   version_info = merge_info (version_info (read_info ?st 0)) None\<rparr>
            \<and> cache st'' (''by_name'', MODRINTH, ModDesc.name ?d2)
                = Some (Info (Suc (next_ref ?st)))"
      using t4 old b pth upd(2) by (simp add: ex_backend_def)
    then show ?thesis
      unfolding rd s2 by (auto simp add: ex_world_def merge_info_def)
  qed
  show ?thesis
    using c1 c2 c3 c4 by (simp add: RECHECK_INTERVAL_MIN_def RECHECK_INTERVAL_MAX_def)
qed


text \<open>
  The new object is built on the list and the dictionary of the cached one: after the
  revalidation the two objects hold the same dictionary, and the same list when the
  descriptor is unchanged, and the cached object reads changed with the new one.
\<close>

lemma revalidate_shares_dictionary:
  assumes "backends w src = Some b" and "get_moddesc b ty nm = Inr d"
    and "updated (obj_mod_desc (objs st r)) \<noteq> updated d"
    and "fetch_versions b d = Inr (vs, nvi)"
    and "r \<noteq> Suc (next_ref st)"
  shows "\<exists>res st'. revalidate srt w st src ty nm (Some r) = (res, st', [GetModDesc src ty nm, GetVersions src d])
           \<and> obj_version_info (objs st' (Suc (next_ref st))) = obj_version_info (objs st r)
           \<and> version_info (read_info st' r) = merge_info (version_info (read_info st r)) nvi
           \<and> version_info (read_info st' (Suc (next_ref st))) = version_info (read_info st' r)"
  using assms
  by (simp add: revalidate_def store_new_def cache_set_def ModInfo_init_def new_object_def
      new_list_def dict_update_def Let_def split: option.splits)

lemma revalidate_shares_list:
  assumes "backends w src = Some b" and "get_moddesc b ty nm = Inr d"
    and "updated (obj_mod_desc (objs st r)) = updated d"
    and "r \<noteq> next_ref st"
  shows "\<exists>res st'. revalidate srt w st src ty nm (Some r) = (res, st', [GetModDesc src ty nm])
           \<and> obj_versions (objs st' (next_ref st)) = obj_versions (objs st r)
           \<and> versions (read_info st' r) = sorted_reverse srt ModVer_less (versions (read_info st r))
           \<and> versions (read_info st' (next_ref st)) = versions (read_info st' r)"
  using assms
  by (simp add: revalidate_def store_new_def cache_set_def ModInfo_init_def new_object_def
      Let_def split: option.splits)



section \<open>Properties of the codec of Ver\<close>

text \<open>
  Claim C8: deserializing the serialized form restores the value, also for an empty
  collection. The code does not do this for \<^verbatim>\<open>Ver((), VerType.RELEASE)\<close>, the
  version with the empty token tuple: it is serialized as \<^verbatim>\<open>'-RELEASE'\<close>, and
  \<^verbatim>\<open>''.split('.')\<close> is \<^verbatim>\<open>['']\<close>, so it is read back as
  \<^verbatim>\<open>Ver(('',), VerType.RELEASE)\<close>.
\<close>

theorem Ver_roundtrip_empty_tuple:
  "Ver_serialize \<lparr>Ver.version = [], Ver.type = RELEASE\<rparr> = ''-RELEASE''
   \<and> Ver_deserialize (Ver_serialize \<lparr>Ver.version = [], Ver.type = RELEASE\<rparr>)
       = Inr \<lparr>Ver.version = [TStr []], Ver.type = RELEASE\<rparr>
   \<and> Ver_deserialize (Ver_serialize \<lparr>Ver.version = [], Ver.type = RELEASE\<rparr>)
       \<noteq> Inr \<lparr>Ver.version = [], Ver.type = RELEASE\<rparr>"
  by (simp add: Ver_serialize_def Ver_deserialize_def VerType_deserialize_def lower_def
      lower_char_def maybeint_def isnumeric_def)

text \<open>A version of integer and letter tokens is restored.\<close>

lemma Ver_roundtrip_example:
  "Ver_deserialize (Ver_serialize \<lparr>Ver.version = [TInt 1, TInt 20, TStr ''b''], Ver.type = BETA\<rparr>)
       = Inr \<lparr>Ver.version = [TInt 1, TInt 20, TStr ''b''], Ver.type = BETA\<rparr>"
  by (simp add: Ver_serialize_def Ver_deserialize_def VerType_deserialize_def lower_def
      lower_char_def maybeint_def isnumeric_def is_numeric_char_def is_decimal_def int_of_str_def
      digits_value_def str_int_def str_nat.simps)

text \<open>
  A version that \<^verbatim>\<open>Ver.parse\<close> builds has its digits as strings; it is read back
  with integer tokens.
\<close>

lemma Ver_roundtrip_digit_strings:
  "Ver_deserialize (Ver_serialize \<lparr>Ver.version = [TStr ''1'', TStr ''2''], Ver.type = RELEASE\<rparr>)
       = Inr \<lparr>Ver.version = [TInt 1, TInt 2], Ver.type = RELEASE\<rparr>"
  by (simp add: Ver_serialize_def Ver_deserialize_def VerType_deserialize_def lower_def
      lower_char_def maybeint_def isnumeric_def is_numeric_char_def is_decimal_def int_of_str_def
      digits_value_def)

text \<open>
  Outside the empty tuple the two methods are inverses: a version with at least one token,
  all of them plain, is restored.
\<close>

lemma digit_char_code:
  assumes "k < 10"
  shows "(of_char (''0123456789'' ! k) :: nat) = 48 + k"
proof -
  have "k = 0 \<or> k = 1 \<or> k = 2 \<or> k = 3 \<or> k = 4 \<or> k = 5 \<or> k = 6 \<or> k = 7 \<or> k = 8 \<or> k = 9"
    using assms by arith
  then show ?thesis by (elim disjE) simp_all
qed

lemma digit_char_decimal: "k < 10 \<Longrightarrow> is_decimal (''0123456789'' ! k)"
  using digit_char_code [of k] by (simp add: is_decimal_def)

lemma str_nat_nonempty: "str_nat n \<noteq> []"
  by (subst str_nat.simps) simp

lemma str_nat_decimal: "list_all is_decimal (str_nat n)"
proof (induction n rule: str_nat.induct)
  case (1 n)
  show ?case
  proof (cases "n < 10")
    case True
    then show ?thesis by (subst str_nat.simps) (simp add: digit_char_decimal)
  next
    case False
    then have "list_all is_decimal (str_nat (n div 10))" using "1" by simp
    moreover have "is_decimal (''0123456789'' ! (n mod 10))"
      by (rule digit_char_decimal) simp
    ultimately show ?thesis using False by (subst str_nat.simps) simp
  qed
qed

lemma digits_value_snoc:
  "digits_value (xs @ [c]) = 10 * digits_value xs + (of_char c - 48)"
  by (simp add: digits_value_def)

lemma digits_value_str_nat: "digits_value (str_nat n) = n"
proof (induction n rule: str_nat.induct)
  case (1 n)
  show ?case
  proof (cases "n < 10")
    case True
    then show ?thesis
      by (subst str_nat.simps) (simp add: digits_value_def digit_char_code)
  next
    case False
    then have ih: "digits_value (str_nat (n div 10)) = n div 10" using "1" by simp
    have "(of_char (''0123456789'' ! (n mod 10)) :: nat) = 48 + n mod 10"
      by (rule digit_char_code) simp
    then show ?thesis
      using False ih by (subst str_nat.simps) (simp add: digits_value_snoc)
  qed
qed

lemma is_decimal_not_sep: "is_decimal c \<Longrightarrow> c \<noteq> CHR ''.'' \<and> c \<noteq> CHR ''-''"
  by (auto simp add: is_decimal_def)

lemma str_nat_no_sep: "CHR ''.'' \<notin> set (str_nat n) \<and> CHR ''-'' \<notin> set (str_nat n)"
  using str_nat_decimal [of n] is_decimal_not_sep by (auto simp add: list_all_iff)

lemma maybeint_str_int: "0 \<le> i \<Longrightarrow> maybeint (str_int i) = Inr (TInt i)"
  using str_nat_decimal [of "nat i"] str_nat_nonempty [of "nat i"]
  by (auto simp add: maybeint_def str_int_def isnumeric_def int_of_str_def digits_value_str_nat
      is_numeric_char_def list_all_iff)

lemma maybeint_py_str: "plain_tok t \<Longrightarrow> maybeint (py_str t) = Inr t"
  by (cases t) (simp_all add: maybeint_str_int, simp add: maybeint_def)

lemma py_str_no_sep:
  "plain_tok t \<Longrightarrow> CHR ''.'' \<notin> set (py_str t) \<and> CHR ''-'' \<notin> set (py_str t)"
  by (cases t) (simp_all add: str_int_def str_nat_no_sep)

lemma map_maybeint_py_str:
  "list_all plain_tok ts \<Longrightarrow> map_maybeint (map py_str ts) = Inr ts"
  by (induction ts) (simp_all add: maybeint_py_str)

lemma split_no_sep: "sep \<notin> set s \<Longrightarrow> split sep s = [s]"
  by (induction s) auto

lemma split_append_sep:
  "sep \<notin> set s \<Longrightarrow> split sep (s @ sep # rest) = s # split sep rest"
  by (induction s) auto

lemma split_join:
  "ps \<noteq> [] \<Longrightarrow> \<forall>p \<in> set ps. CHR ''.'' \<notin> set p \<Longrightarrow> split CHR ''.'' (join ''.'' ps) = ps"
proof (induction ps)
  case Nil
  then show ?case by simp
next
  case (Cons p ps)
  show ?case
  proof (cases ps)
    case Nil
    then show ?thesis using Cons.prems by (simp add: split_no_sep)
  next
    case (Cons q qs)
    then have "split CHR ''.'' (join ''.'' ps) = ps" using Cons.IH Cons.prems by simp
    then show ?thesis
      using Cons Cons.prems split_append_sep [of "CHR ''.''" p "join ''.'' (q # qs)"] by simp
  qed
qed

lemma join_no_dash:
  "\<forall>p \<in> set ps. CHR ''-'' \<notin> set p \<Longrightarrow> CHR ''-'' \<notin> set (join ''.'' ps)"
proof (induction ps)
  case Nil
  then show ?case by simp
next
  case (Cons p ps)
  then show ?case by (cases ps) auto
qed

lemma partition_first:
  "sep \<notin> set s \<Longrightarrow> partition' sep (s @ sep # rest) = (s, [sep], rest)"
  by (induction s) auto

lemma VerType_deserialize_name: "VerType_deserialize (VerType_name t) = Inr t"
  by (cases t) (simp_all add: VerType_deserialize_def lower_def lower_char_def)

lemma Ver_roundtrip_plain:
  assumes "Ver.version v \<noteq> []" and "list_all plain_tok (Ver.version v)"
  shows "Ver_deserialize (Ver_serialize v) = Inr v"
proof -
  let ?ps = "map py_str (Ver.version v)"
  have nosep: "\<forall>p \<in> set ?ps. CHR ''.'' \<notin> set p \<and> CHR ''-'' \<notin> set p"
    using assms(2) py_str_no_sep by (auto simp add: list_all_iff)
  have nodash: "CHR ''-'' \<notin> set (join ''.'' ?ps)"
    using nosep join_no_dash by blast
  have part: "partition' CHR ''-'' (Ver_serialize v)
                = (join ''.'' ?ps, ''-'', VerType_name (Ver.type v))"
    using partition_first [OF nodash] by (simp add: Ver_serialize_def)
  have sp: "split CHR ''.'' (join ''.'' ?ps) = ?ps"
    using split_join [of ?ps] nosep assms(1) by simp
  show ?thesis
    by (simp add: Ver_deserialize_def part sp map_maybeint_py_str [OF assms(2)]
        VerType_deserialize_name)
qed

end
